theory Spec2Isabelle
  imports Complex_Main "HOL-Library.Sublist" "HOL-Library.Word"
begin

section \<open>Go primitives used by the services\<close>

text \<open>
  Go's \<^verbatim>\<open>int\<close> and \<^verbatim>\<open>int64\<close> values in this program are pixel coordinates,
  side lengths, byte counts and face counts; they are modelled as \<open>int\<close>. Go's \<^verbatim>\<open>/\<close>
  on integers truncates towards zero, whereas \<open>div\<close> on \<open>int\<close> rounds towards minus
  infinity, so the quotient is written out.
\<close>

definition go_quo :: "int \<Rightarrow> int \<Rightarrow> int" where
  "go_quo a b = (if (a < 0) = (b < 0) then \<bar>a\<bar> div \<bar>b\<bar> else - (\<bar>a\<bar> div \<bar>b\<bar>))"

text \<open>
  A \<^verbatim>\<open>float32\<close> is modelled by the rational number it denotes (finite values
  only). Comparisons of two such values are exact. Where the source computes with
  \<^verbatim>\<open>float32\<close> values, the model rounds every result with a function \<open>rnd\<close>
  that it takes as a parameter.
\<close>

type_synonym float32 = rat

text \<open>
  The rounding of \<^verbatim>\<open>float32\<close> arithmetic: \<open>round32 q\<close> is the \<^verbatim>\<open>float32\<close>
  nearest to \<open>q\<close>, a tie going to the even significand. A \<^verbatim>\<open>float32\<close> has a
  significand of 24 bits and an exponent of at least \<open>-126\<close>. \<open>bits n\<close> is the number
  of binary digits of \<open>n\<close>, \<open>ilog2 q\<close> the exponent of a positive \<open>q\<close>, that is the
  \<open>e\<close> with \<open>2^e \<le> q < 2^(e+1)\<close>. Results beyond the largest \<^verbatim>\<open>float32\<close>, which
  the machine turns into an infinity, are outside the model.
\<close>

fun bits :: "nat \<Rightarrow> nat" where
  "bits n = (if n = 0 then 0 else Suc (bits (n div 2)))"

declare bits.simps [simp del]

definition pow2 :: "int \<Rightarrow> rat" where
  "pow2 e = (if 0 \<le> e then 2 ^ nat e else 1 / 2 ^ nat (- e))"

definition ilog2 :: "rat \<Rightarrow> int" where
  "ilog2 q =
     (if 1 \<le> q then int (bits (nat \<lfloor>q\<rfloor>)) - 1
      else - int (bits (nat (\<lceil>1 / q\<rceil> - 1))))"

definition roundHalfEven :: "rat \<Rightarrow> int" where
  "roundHalfEven m =
     (let n = \<lfloor>m\<rfloor>;
          f = m - of_int n
      in if f < 1 / 2 then n
         else if f > 1 / 2 then n + 1
         else if even n then n else n + 1)"

definition round32 :: "rat \<Rightarrow> rat" where
  "round32 q =
     (if q = 0 then 0
      else (let a = \<bar>q\<bar>;
                e = max (ilog2 a) (- 126);
                ulp = pow2 (e - 23)
            in sgn q * of_int (roundHalfEven (a / ulp)) * ulp))"

text \<open>\<^verbatim>\<open>fmt.Sprintf("%d", n)\<close>: the decimal digits of an integer.\<close>

fun digits :: "nat \<Rightarrow> string" where
  "digits n = (if n < 10 then [''0123456789'' ! n]
               else digits (n div 10) @ [''0123456789'' ! (n mod 10)])"

declare digits.simps [simp del]

definition fmt_d :: "int \<Rightarrow> string" where
  "fmt_d i = (if i < 0 then CHR ''-'' # digits (nat (- i)) else digits (nat i))"

subsection \<open>Package strings\<close>

text \<open>
  Strings are byte strings, and a letter outside ASCII is the bytes of its UTF-8 encoding.
  \<^verbatim>\<open>strings.ToLower\<close> puts the ASCII letters in lower case and maps the two letters
  outside ASCII whose lower case is an ASCII letter: U+0130, the bytes \<open>C4 B0\<close>, becomes
  \<open>i\<close> and U+212A, the bytes \<open>E2 84 AA\<close>, becomes \<open>k\<close>. For every other letter
  outside ASCII, and for a byte that is not UTF-8, Go writes bytes that are again outside
  ASCII; the model leaves those bytes as they are. So the result of the model and the result
  of Go have the same ASCII bytes between the same stretches of bytes outside ASCII, and
  they agree on whether the result is a given ASCII string, starts with one or contains
  one, which is all that the services ask of it. \<^verbatim>\<open>strings.ToUpper\<close> is applied to the
  names of the image formats only, which are ASCII.
\<close>

definition upperLetters :: string where
  "upperLetters = ''ABCDEFGHIJKLMNOPQRSTUVWXYZ''"

definition lowerLetters :: string where
  "lowerLetters = ''abcdefghijklmnopqrstuvwxyz''"

definition lowerChar :: "char \<Rightarrow> char" where
  "lowerChar c = (case map_of (zip upperLetters lowerLetters) c of Some d \<Rightarrow> d | None \<Rightarrow> c)"

definition upperChar :: "char \<Rightarrow> char" where
  "upperChar c = (case map_of (zip lowerLetters upperLetters) c of Some d \<Rightarrow> d | None \<Rightarrow> c)"

fun ToLower :: "string \<Rightarrow> string" where
  "ToLower [] = []"
| "ToLower (c # s) =
     (if c = CHR 0xC4 \<and> take 1 s = [CHR 0xB0] then CHR ''i'' # ToLower (drop 1 s)
      else if c = CHR 0xE2 \<and> take 2 s = [CHR 0x84, CHR 0xAA] then CHR ''k'' # ToLower (drop 2 s)
      else lowerChar c # ToLower s)"

definition ToUpper :: "string \<Rightarrow> string" where
  "ToUpper s = map upperChar s"

text \<open>\<^verbatim>\<open>strings.HasPrefix(s, p)\<close> and \<^verbatim>\<open>strings.Contains(s, sub)\<close>.\<close>

fun HasPrefix :: "string \<Rightarrow> string \<Rightarrow> bool" where
  "HasPrefix s [] = True"
| "HasPrefix [] (p # ps) = False"
| "HasPrefix (c # s) (p # ps) = (c = p \<and> HasPrefix s ps)"

fun Contains :: "string \<Rightarrow> string \<Rightarrow> bool" where
  "Contains [] sub = (sub = [])"
| "Contains (c # s) sub = (HasPrefix (c # s) sub \<or> Contains s sub)"

text \<open>\<^verbatim>\<open>strings.Split(s, ";")[0]\<close>: the part of \<open>s\<close> before the first semicolon.\<close>

definition SplitFirst :: "string \<Rightarrow> string" where
  "SplitFirst s = takeWhile (\<lambda>c. c \<noteq> CHR '';'') s"

section \<open>Package image, as the services use it\<close>

record Rectangle =
  MinX :: int
  MinY :: int
  MaxX :: int
  MaxY :: int

definition Dx :: "Rectangle \<Rightarrow> int" where
  "Dx r = MaxX r - MinX r"

definition Dy :: "Rectangle \<Rightarrow> int" where
  "Dy r = MaxY r - MinY r"

text \<open>\<^verbatim>\<open>color.RGBA\<close>: four \<^verbatim>\<open>uint8\<close> components.\<close>

datatype RGBA = RGBA "8 word" "8 word" "8 word" "8 word"

text \<open>
  An image is its bounds and the colour, in the RGBA colour model, that \<^verbatim>\<open>At\<close>
  returns at a point \<open>(x, y)\<close>.
\<close>

record Image =
  Bounds :: Rectangle
  At :: "int \<times> int \<Rightarrow> RGBA"

definition inRect :: "int \<Rightarrow> int \<Rightarrow> Rectangle \<Rightarrow> bool" where
  "inRect x y bounds = (x \<ge> MinX bounds \<and> x < MaxX bounds \<and> y \<ge> MinY bounds \<and> y < MaxY bounds)"

section \<open>models and config\<close>

record Face =
  X :: int
  Y :: int
  Width :: int
  Height :: int
  Confidence :: float32

text \<open>
  \<^verbatim>\<open>ImageMetadata\<close> and \<^verbatim>\<open>SelfieValidationResponse\<close>; the fields that share a
  name with a field of \<open>Face\<close> carry a prefix.
\<close>

record ImageMetadata =
  MetaWidth :: int
  MetaHeight :: int
  Format :: string
  SizeBytes :: int
  MetaURL :: string

record SelfieValidationResponse =
  IsValid :: bool
  Issues :: "string list"
  SelfieConfidence :: float32
  FaceCount :: int

record PigoConfig =
  MinSize :: int
  MaxSize :: int
  ShiftFactor :: float32
  ScaleFactor :: float32
  IoUThreshold :: float32
  MinConfidence :: float32

record LimitsConfig =
  MaxImageSize :: int
  MaxWidth :: int
  MaxHeight :: int
  RateLimit :: int
  RateBurst :: int

section \<open>The pigo classifier, as the detector calls it\<close>

text \<open>
  \<^verbatim>\<open>pigo.Detection\<close> has the fields \<^verbatim>\<open>Row, Col, Scale int\<close> and
  \<^verbatim>\<open>Q float32\<close>.
\<close>

record Detection =
  Row :: int
  Col :: int
  Scale :: int
  Q :: float32

record ImageParams =
  Pixels :: "8 word list"
  Rows :: int
  Cols :: int
  Dim :: int

record CascadeParams =
  CMinSize :: int
  CMaxSize :: int
  CShiftFactor :: rat
  CScaleFactor :: rat
  CImageParams :: ImageParams

text \<open>
  The classifier is a library outside the repository. The detector uses three of its
  operations, which the model takes as they are: the conversion of an image to
  grayscale samples, the cascade run, and the clustering of raw detections.
\<close>

record Pigo =
  RgbToGrayscale :: "Image \<Rightarrow> 8 word list"
  RunCascade :: "CascadeParams \<Rightarrow> rat \<Rightarrow> Detection list"
  ClusterDetections :: "Detection list \<Rightarrow> rat \<Rightarrow> Detection list"

section \<open>services.FaceDetector\<close>

text \<open>The loop of \<^verbatim>\<open>DetectFaces\<close> that keeps the detections at or above the threshold.\<close>

fun filterDetections :: "float32 \<Rightarrow> Detection list \<Rightarrow> Detection list \<Rightarrow> Detection list" where
  "filterDetections minConf filteredDetections [] = filteredDetections"
| "filterDetections minConf filteredDetections (det # dets) =
     (if Q det \<ge> minConf
      then filterDetections minConf (filteredDetections @ [det]) dets
      else filterDetections minConf filteredDetections dets)"

text \<open>The body of the loop that fills \<^verbatim>\<open>faces[i]\<close> from \<^verbatim>\<open>filteredDetections[i]\<close>.\<close>

definition toFace :: "Detection \<Rightarrow> Face" where
  "toFace det =
     \<lparr> X = Col det - go_quo (Scale det) 2,
       Y = Row det - go_quo (Scale det) 2,
       Width = Scale det,
       Height = Scale det,
       Confidence = Q det \<rparr>"

datatype detect_error = DetectError

text \<open>The \<^verbatim>\<open>pigo.CascadeParams\<close> literal built by \<^verbatim>\<open>DetectFaces\<close>.\<close>

definition cascadeParams :: "PigoConfig \<Rightarrow> 8 word list \<Rightarrow> int \<Rightarrow> int \<Rightarrow> CascadeParams" where
  "cascadeParams config pixels width height =
     \<lparr> CMinSize = MinSize config,
       CMaxSize = MaxSize config,
       CShiftFactor = ShiftFactor config,
       CScaleFactor = ScaleFactor config,
       CImageParams = \<lparr> Pixels = pixels, Rows = height, Cols = width, Dim = width \<rparr> \<rparr>"

text \<open>
  \<^verbatim>\<open>DetectFaces\<close>. The only return statement of the source returns the faces with a
  nil error, so the model always returns \<open>Inr\<close>.
\<close>

definition DetectFaces :: "Pigo \<Rightarrow> PigoConfig \<Rightarrow> Image \<Rightarrow> detect_error + Face list" where
  "DetectFaces classifier config img =
     (let pixels = RgbToGrayscale classifier img;
          bounds = Bounds img;
          width = MaxX bounds;
          height = MaxY bounds;
          cParams = cascadeParams config pixels width height;
          angle = 0;
          detections = RunCascade classifier cParams angle;
          detections = ClusterDetections classifier detections (IoUThreshold config);
          filteredDetections = filterDetections (MinConfidence config) [] detections;
          faces = map toFace filteredDetections
      in Inr faces)"

text \<open>\<^verbatim>\<open>ValidateSelfie\<close>, with the issue texts of the source.\<close>

definition ValidateSelfie ::
  "(rat \<Rightarrow> rat) \<Rightarrow> Face list \<Rightarrow> int \<Rightarrow> int \<Rightarrow> SelfieValidationResponse" where
  "ValidateSelfie rnd faces minFaces maxFaces =
     (let faceCount = int (length faces);
          issues0 = [];
          (isValid1, issues1) =
            (if faceCount < minFaces then
               (False,
                if faceCount = 0
                then (issues0 @ [''No faces detected in image''])
                       @ [''Image may be too dark or blurry'']
                else issues0 @ [''Too few faces detected ('' @ fmt_d faceCount
                       @ '' found, expected at least '' @ fmt_d minFaces @ '')''])
             else if faceCount > maxFaces then
               (False,
                issues0 @ [''Multiple faces detected ('' @ fmt_d faceCount
                       @ '' found, expected '' @ fmt_d maxFaces @ '')''])
             else (True, issues0));
          (isValid2, issues2, confidence) =
            (if faceCount > 0 then
               (let totalConfidence = foldl (\<lambda>t face. rnd (t + Confidence face)) 0 faces;
                    confidence = rnd (totalConfidence / rnd (of_int faceCount))
                in if confidence < 10
                   then (False, issues1 @ [''Low confidence score for detected face(s)''],
                         confidence)
                   else (isValid1, issues1, confidence))
             else (isValid1, issues1, 0))
      in \<lparr> IsValid = isValid2, Issues = issues2, SelfieConfidence = confidence,
           FaceCount = faceCount \<rparr>)"

section \<open>services.ImageDownloader\<close>

subsection \<open>The libraries behind the downloader\<close>

text \<open>The fields of a parsed \<^verbatim>\<open>url.URL\<close> that the downloader reads.\<close>

record ParsedURL =
  Scheme :: string
  Host :: string

text \<open>
  The fields of an \<^verbatim>\<open>http.Response\<close> that the downloader reads: the status, the
  \<^verbatim>\<open>Content-Type\<close> header, the declared content length (\<open>-1\<close> when it is unknown)
  and the bytes of the body.
\<close>

record Response =
  StatusCode :: int
  Status :: string
  ContentType :: string
  ContentLength :: int
  Body :: string

text \<open>
  Package \<^verbatim>\<open>image\<close> keeps a list of registered formats, each with a name, a magic
  prefix in which \<^verbatim>\<open>?\<close> matches any byte, and a decoder. \<^verbatim>\<open>image.Decode\<close> takes
  the first registered format whose magic matches the first bytes of the data, and fails
  when there is none or when the decoder of that format fails.
\<close>

record ImageFormat =
  fname :: string
  fmagic :: string
  fdecode :: "string \<Rightarrow> Image option"

fun match :: "string \<Rightarrow> string \<Rightarrow> bool" where
  "match [] [] = True"
| "match (m # magic) (c # b) = ((m = c \<or> m = CHR ''?'') \<and> match magic b)"
| "match magic b = False"

fun sniff :: "ImageFormat list \<Rightarrow> string \<Rightarrow> ImageFormat option" where
  "sniff [] body = None"
| "sniff (f # formats) body =
     (if length (fmagic f) \<le> length body \<and> match (fmagic f) (take (length (fmagic f)) body)
      then Some f
      else sniff formats body)"

definition image_Decode :: "ImageFormat list \<Rightarrow> string \<Rightarrow> (Image \<times> string) option" where
  "image_Decode formats body =
     (case sniff formats body of
        None \<Rightarrow> None
      | Some f \<Rightarrow> (case fdecode f body of None \<Rightarrow> None | Some m \<Rightarrow> Some (m, fname f)))"

text \<open>
  What the downloader takes from outside the repository: \<^verbatim>\<open>url.Parse\<close>, the HTTP
  client (\<open>None\<close> is a transport error) and the decoders of the two packages that
  \<^verbatim>\<open>image_downloader.go\<close> imports for their registration, \<^verbatim>\<open>image/jpeg\<close> and
  \<^verbatim>\<open>image/png\<close>.
\<close>

record Net =
  url_Parse :: "string \<Rightarrow> ParsedURL option"
  client_Do :: "string \<Rightarrow> Response option"
  jpeg_Decode :: "string \<Rightarrow> Image option"
  png_Decode :: "string \<Rightarrow> Image option"

text \<open>The formats registered by the two imports, with the magic prefixes of those packages.\<close>

definition jpegMagic :: string where
  "jpegMagic = [CHR 0xFF, CHR 0xD8]"

definition pngMagic :: string where
  "pngMagic = [CHR 0x89, CHR ''P'', CHR ''N'', CHR ''G'', CHR 0x0D, CHR 0x0A, CHR 0x1A, CHR 0x0A]"

definition registeredFormats :: "Net \<Rightarrow> ImageFormat list" where
  "registeredFormats net =
     [ \<lparr> fname = ''jpeg'', fmagic = jpegMagic, fdecode = jpeg_Decode net \<rparr>,
       \<lparr> fname = ''png'', fmagic = pngMagic, fdecode = png_Decode net \<rparr> ]"

subsection \<open>The functions of the downloader\<close>

text \<open>\<^verbatim>\<open>isPrivateIP\<close>\<close>

definition privateHosts :: "string list" where
  "privateHosts = [''localhost'', ''127.0.0.1'', ''0.0.0.0'', ''::1'']"

definition isPrivateIP :: "string \<Rightarrow> bool" where
  "isPrivateIP host0 =
     (let host = ToLower host0
      in if list_ex (\<lambda>privateHost. Contains host privateHost) privateHosts then True
         else if HasPrefix host ''10.'' \<or> HasPrefix host ''192.168.'' \<or> HasPrefix host ''172.''
         then True
         else False)"

text \<open>\<^verbatim>\<open>isValidImageType\<close>\<close>

definition validTypes :: "string list" where
  "validTypes = [''image/jpeg'', ''image/jpg'', ''image/png'', ''image/gif'', ''image/webp'']"

definition isValidImageType :: "string \<Rightarrow> bool" where
  "isValidImageType contentType0 =
     (let contentType = ToLower (SplitFirst contentType0)
      in list_ex (\<lambda>validType. contentType = validType) validTypes)"

text \<open>\<^verbatim>\<open>validateURL\<close>; \<open>None\<close> is the nil error.\<close>

datatype url_error =
    EmptyURL
  | InvalidURLFormat
  | UnsupportedScheme string
  | MissingHost
  | PrivateAddress

definition validateURL :: "Net \<Rightarrow> string \<Rightarrow> url_error option" where
  "validateURL net imageURL =
     (if imageURL = [] then Some EmptyURL
      else case url_Parse net imageURL of
             None \<Rightarrow> Some InvalidURLFormat
           | Some parsedURL \<Rightarrow>
               if Scheme parsedURL \<noteq> ''http'' \<and> Scheme parsedURL \<noteq> ''https''
               then Some (UnsupportedScheme (Scheme parsedURL))
               else if Host parsedURL = [] then Some MissingHost
               else if isPrivateIP (Host parsedURL) then Some PrivateAddress
               else None)"

text \<open>
  \<^verbatim>\<open>DownloadImage\<close>, one error value for each return with a non-nil error.
  \<^verbatim>\<open>http.NewRequestWithContext\<close> fails when the URL does not parse.
\<close>

datatype download_error =
    InvalidURL url_error
  | RequestFailed
  | DownloadFailed
  | BadStatus int string
  | UnsupportedContentType string
  | ImageTooLarge int int
  | DecodeFailed
  | DimensionsTooLarge int int int int

definition DownloadImage ::
  "Net \<Rightarrow> LimitsConfig \<Rightarrow> string \<Rightarrow> download_error + Image \<times> ImageMetadata" where
  "DownloadImage net config imageURL =
     (case validateURL net imageURL of
        Some err \<Rightarrow> Inl (InvalidURL err)
      | None \<Rightarrow>
     (case url_Parse net imageURL of
        None \<Rightarrow> Inl RequestFailed
      | Some req \<Rightarrow>
     (case client_Do net imageURL of
        None \<Rightarrow> Inl DownloadFailed
      | Some resp \<Rightarrow>
          if StatusCode resp \<noteq> 200 then Inl (BadStatus (StatusCode resp) (Status resp))
          else if \<not> isValidImageType (ContentType resp)
          then Inl (UnsupportedContentType (ContentType resp))
          else if ContentLength resp > MaxImageSize config
          then Inl (ImageTooLarge (ContentLength resp) (MaxImageSize config))
          else
     (case image_Decode (registeredFormats net) (Body resp) of
        None \<Rightarrow> Inl DecodeFailed
      | Some (img, format) \<Rightarrow>
          (let bounds = Bounds img;
               width = Dx bounds;
               height = Dy bounds
           in if width > MaxWidth config \<or> height > MaxHeight config
              then Inl (DimensionsTooLarge width height (MaxWidth config) (MaxHeight config))
              else Inr (img,
                        \<lparr> MetaWidth = width, MetaHeight = height,
                          Format = ToUpper format,
                          SizeBytes = ContentLength resp,
                          MetaURL = imageURL \<rparr>))))))"

section \<open>services.ImageProcessor\<close>

subsection \<open>Images in memory\<close>

text \<open>
  The processor draws into an image that it allocates, while the decoded source image
  stays where it is. To tell the two apart the images live in a heap: a list of images,
  an address being an index of the list. The operations of packages \<^verbatim>\<open>image\<close> and
  \<^verbatim>\<open>image/draw\<close> that the processor calls are modelled on this heap.
\<close>

type_synonym heap = "Image list"

text \<open>\<^verbatim>\<open>image.NewRGBA(r)\<close> allocates an image with bounds \<open>r\<close> and every pixel zero.\<close>

definition NewRGBA :: "Rectangle \<Rightarrow> heap \<Rightarrow> nat \<times> heap" where
  "NewRGBA r h = (length h, h @ [\<lparr> Bounds = r, At = (\<lambda>p. RGBA 0 0 0 0) \<rparr>])"

text \<open>
  \<^verbatim>\<open>draw.Draw(dst, r, src, r.Min, draw.Src)\<close> replaces, at every point of \<open>r\<close> that lies
  in the bounds of both images, the pixel of \<open>dst\<close> by the colour of \<open>src\<close> at the same
  point.
\<close>

definition draw_Src :: "nat \<Rightarrow> Rectangle \<Rightarrow> nat \<Rightarrow> heap \<Rightarrow> heap" where
  "draw_Src dst r src h =
     h[dst := (h ! dst)
        \<lparr> At := (\<lambda>(x, y). if inRect x y r \<and> inRect x y (Bounds (h ! dst))
                              \<and> inRect x y (Bounds (h ! src))
                           then At (h ! src) (x, y)
                           else At (h ! dst) (x, y)) \<rparr>]"

text \<open>\<^verbatim>\<open>img.Set(x, y, col)\<close> on an \<^verbatim>\<open>*image.RGBA\<close> does nothing outside the bounds.\<close>

definition RGBA_Set :: "nat \<Rightarrow> int \<Rightarrow> int \<Rightarrow> RGBA \<Rightarrow> heap \<Rightarrow> heap" where
  "RGBA_Set img x y col h =
     (if inRect x y (Bounds (h ! img))
      then h[img := (h ! img) \<lparr> At := (At (h ! img)) ((x, y) := col) \<rparr>]
      else h)"

text \<open>
  \<^verbatim>\<open>jpeg.Encode\<close> and \<^verbatim>\<open>base64.StdEncoding.EncodeToString\<close> are taken as they are;
  \<open>None\<close> is an encoding error.
\<close>

record Codec =
  jpeg_Encode :: "Image \<Rightarrow> int \<Rightarrow> string option"
  base64_EncodeToString :: "string \<Rightarrow> string"

subsection \<open>The functions of the processor\<close>

record CircleOptions =
  Color :: RGBA
  LineWidth :: int

text \<open>\<^verbatim>\<open>setPixelSafe\<close>\<close>

definition setPixelSafe :: "nat \<Rightarrow> int \<Rightarrow> int \<Rightarrow> RGBA \<Rightarrow> heap \<Rightarrow> heap" where
  "setPixelSafe img x y col h =
     (let bounds = Bounds (h ! img)
      in if x \<ge> MinX bounds \<and> x < MaxX bounds \<and> y \<ge> MinY bounds \<and> y < MaxY bounds
         then RGBA_Set img x y col h
         else h)"

text \<open>The eight calls of \<^verbatim>\<open>setPixelSafe\<close> in the body of the inner loop of \<^verbatim>\<open>drawCircle\<close>.\<close>

definition plot8 :: "nat \<Rightarrow> int \<Rightarrow> int \<Rightarrow> RGBA \<Rightarrow> int \<Rightarrow> int \<Rightarrow> heap \<Rightarrow> heap" where
  "plot8 img centerX centerY col x y h0 =
     (let h1 = setPixelSafe img (centerX + x) (centerY + y) col h0;
          h2 = setPixelSafe img (centerX - x) (centerY + y) col h1;
          h3 = setPixelSafe img (centerX + x) (centerY - y) col h2;
          h4 = setPixelSafe img (centerX - x) (centerY - y) col h3;
          h5 = setPixelSafe img (centerX + y) (centerY + x) col h4;
          h6 = setPixelSafe img (centerX - y) (centerY + x) col h5;
          h7 = setPixelSafe img (centerX + y) (centerY - x) col h6
      in setPixelSafe img (centerX - y) (centerY - x) col h7)"

text \<open>The inner loop \<^verbatim>\<open>for x <= y\<close> of \<^verbatim>\<open>drawCircle\<close>, from the state \<open>x\<close>, \<open>y\<close>, \<open>d\<close>.\<close>

function circleLoop ::
  "nat \<Rightarrow> int \<Rightarrow> int \<Rightarrow> RGBA \<Rightarrow> int \<Rightarrow> int \<Rightarrow> int \<Rightarrow> heap \<Rightarrow> heap" where
  "circleLoop img centerX centerY col x y d h =
     (if x \<le> y then
        (if d < 0
         then circleLoop img centerX centerY col (x + 1) y (d + 4 * x + 6)
                (plot8 img centerX centerY col x y h)
         else circleLoop img centerX centerY col (x + 1) (y - 1) (d + 4 * (x - y) + 10)
                (plot8 img centerX centerY col x y h))
      else h)"
  by pat_completeness auto
termination
  by (relation "measure (\<lambda>(img, centerX, centerY, col, x, y, d, h). nat (y - x + 1))") auto

declare circleLoop.simps [simp del]

text \<open>The outer loop \<^verbatim>\<open>for w := 0; w < lineWidth; w++\<close>, from the offset \<open>w\<close>.\<close>

function strokeLoop ::
  "nat \<Rightarrow> int \<Rightarrow> int \<Rightarrow> int \<Rightarrow> RGBA \<Rightarrow> int \<Rightarrow> int \<Rightarrow> heap \<Rightarrow> heap" where
  "strokeLoop img centerX centerY radius col lineWidth w h =
     (if w < lineWidth then
        (let r = radius + w - go_quo lineWidth 2
         in if r \<le> 0
            then strokeLoop img centerX centerY radius col lineWidth (w + 1) h
            else strokeLoop img centerX centerY radius col lineWidth (w + 1)
                   (circleLoop img centerX centerY col 0 r (3 - 2 * r) h))
      else h)"
  by pat_completeness auto
termination
  by (relation "measure (\<lambda>(img, centerX, centerY, radius, col, lineWidth, w, h).
        nat (lineWidth - w))") auto

declare strokeLoop.simps [simp del]

text \<open>\<^verbatim>\<open>drawCircle\<close>\<close>

definition drawCircle ::
  "nat \<Rightarrow> int \<Rightarrow> int \<Rightarrow> int \<Rightarrow> RGBA \<Rightarrow> int \<Rightarrow> heap \<Rightarrow> heap" where
  "drawCircle img centerX centerY radius col lineWidth h =
     strokeLoop img centerX centerY radius col lineWidth 0 h"

text \<open>
  The loop over the faces in \<^verbatim>\<open>DrawFaceCircles\<close>. The radius is
  \<^verbatim>\<open>int(math.Max(float64(face.Width), float64(face.Height)) / 2)\<close>: the conversions
  to \<^verbatim>\<open>float64\<close> and the halving are exact on pixel sizes, and the conversion back
  truncates towards zero.
\<close>

fun drawFaces :: "nat \<Rightarrow> Face list \<Rightarrow> CircleOptions \<Rightarrow> heap \<Rightarrow> heap" where
  "drawFaces rgba [] opts h = h"
| "drawFaces rgba (face # faces) opts h =
     (let centerX = X face + go_quo (Width face) 2;
          centerY = Y face + go_quo (Height face) 2;
          radius = go_quo (max (Width face) (Height face)) 2
      in drawFaces rgba faces opts
           (drawCircle rgba centerX centerY radius (Color opts) (LineWidth opts) h))"

text \<open>\<^verbatim>\<open>encodeToBase64\<close>\<close>

datatype render_error = EncodeError

definition encodeToBase64 :: "Codec \<Rightarrow> Image \<Rightarrow> render_error + string" where
  "encodeToBase64 codec img =
     (case jpeg_Encode codec img 90 of
        None \<Rightarrow> Inl EncodeError
      | Some buf \<Rightarrow>
          (let encoded = base64_EncodeToString codec buf
           in Inr (''data:image/jpeg;base64,'' @ encoded)))"

text \<open>
  \<^verbatim>\<open>DrawFaceCircles\<close>, on the image at the address \<open>img\<close>. It returns the heap that it
  leaves and its result.
\<close>

definition DrawFaceCircles ::
  "Codec \<Rightarrow> nat \<Rightarrow> Face list \<Rightarrow> CircleOptions \<Rightarrow> heap \<Rightarrow> heap \<times> (render_error + string)" where
  "DrawFaceCircles codec img faces opts h0 =
     (let bounds = Bounds (h0 ! img);
          (rgba, h1) = NewRGBA bounds h0;
          h2 = draw_Src rgba bounds img h1;
          h3 = drawFaces rgba faces opts h2
      in case encodeToBase64 codec (h3 ! rgba) of
           Inl err \<Rightarrow> (h3, Inl err)
         | Inr encoded \<Rightarrow> (h3, Inr encoded))"

text \<open>\<^verbatim>\<open>ParseColor\<close>\<close>

definition ParseColor :: "string \<Rightarrow> RGBA" where
  "ParseColor colorName =
     (if colorName = ''red'' then RGBA 255 0 0 255
      else if colorName = ''green'' then RGBA 0 255 0 255
      else if colorName = ''blue'' then RGBA 0 0 255 255
      else if colorName = ''yellow'' then RGBA 255 255 0 255
      else if colorName = ''white'' then RGBA 255 255 255 255
      else if colorName = ''black'' then RGBA 0 0 0 255
      else if colorName = ''orange'' then RGBA 255 165 0 255
      else if colorName = ''purple'' then RGBA 128 0 128 255
      else if colorName = ''pink'' then RGBA 255 192 203 255
      else if colorName = ''cyan'' then RGBA 0 255 255 255
      else RGBA 255 0 0 255)"

subsection \<open>The points that the drawing visits\<close>

text \<open>
  The coordinates with which the loops of \<^verbatim>\<open>drawCircle\<close> call \<^verbatim>\<open>setPixelSafe\<close>, in
  the order of the calls: the eight points of one step, the points of the inner loop,
  those of the outer loop, and those of all the faces.
\<close>

definition plot8_points :: "int \<Rightarrow> int \<Rightarrow> int \<Rightarrow> int \<Rightarrow> (int \<times> int) list" where
  "plot8_points centerX centerY x y =
     [ (centerX + x, centerY + y), (centerX - x, centerY + y),
       (centerX + x, centerY - y), (centerX - x, centerY - y),
       (centerX + y, centerY + x), (centerX - y, centerY + x),
       (centerX + y, centerY - x), (centerX - y, centerY - x) ]"

function circle_points :: "int \<Rightarrow> int \<Rightarrow> int \<Rightarrow> int \<Rightarrow> int \<Rightarrow> (int \<times> int) list" where
  "circle_points centerX centerY x y d =
     (if x \<le> y then
        plot8_points centerX centerY x y @
        (if d < 0
         then circle_points centerX centerY (x + 1) y (d + 4 * x + 6)
         else circle_points centerX centerY (x + 1) (y - 1) (d + 4 * (x - y) + 10))
      else [])"
  by pat_completeness auto
termination
  by (relation "measure (\<lambda>(centerX, centerY, x, y, d). nat (y - x + 1))") auto

declare circle_points.simps [simp del]

function stroke_points :: "int \<Rightarrow> int \<Rightarrow> int \<Rightarrow> int \<Rightarrow> int \<Rightarrow> (int \<times> int) list" where
  "stroke_points centerX centerY radius lineWidth w =
     (if w < lineWidth then
        (let r = radius + w - go_quo lineWidth 2
         in (if r \<le> 0 then [] else circle_points centerX centerY 0 r (3 - 2 * r))
            @ stroke_points centerX centerY radius lineWidth (w + 1))
      else [])"
  by pat_completeness auto
termination
  by (relation "measure (\<lambda>(centerX, centerY, radius, lineWidth, w). nat (lineWidth - w))") auto

declare stroke_points.simps [simp del]

fun faces_points :: "Face list \<Rightarrow> int \<Rightarrow> (int \<times> int) list" where
  "faces_points [] lineWidth = []"
| "faces_points (face # faces) lineWidth =
     stroke_points (X face + go_quo (Width face) 2) (Y face + go_quo (Height face) 2)
       (go_quo (max (Width face) (Height face)) 2) lineWidth 0
     @ faces_points faces lineWidth"

text \<open>Calling \<^verbatim>\<open>setPixelSafe\<close> with one colour at each point of a list, in order.\<close>

definition paint :: "nat \<Rightarrow> RGBA \<Rightarrow> (int \<times> int) list \<Rightarrow> heap \<Rightarrow> heap" where
  "paint img col pts h = foldl (\<lambda>g (x, y). setPixelSafe img x y col g) h pts"

section \<open>handlers.FaceHandler\<close>

text \<open>
  The three request types. A handler receives the request that the JSON decoder
  produced, or \<open>None\<close> when the body was not valid JSON; a field that the body does not
  give has the zero value of its type.
\<close>

record FaceDetectionRequest =
  det_ImageURL :: string

record SelfieValidationRequest =
  val_ImageURL :: string
  val_MinFaces :: int
  val_MaxFaces :: int

record VisualDetectionRequest =
  vis_ImageURL :: string
  vis_CircleColor :: string
  vis_LineWidth :: int

text \<open>
  What a handler writes: the status, and either the error object with its two fields
  \<^verbatim>\<open>error\<close> and \<^verbatim>\<open>code\<close> or the response of the endpoint. The processing time, read
  from the clock, is left out of the responses. A handler that never calls
  \<^verbatim>\<open>WriteHeader\<close> answers with the status 200.
\<close>

datatype ResponseBody =
    ErrorBody string string
  | DetectionBody "Face list" int ImageMetadata
  | ValidationBody SelfieValidationResponse
  | VisualBody string "Face list" int ImageMetadata

record HTTPResponse =
  RespStatus :: int
  RespBody :: ResponseBody

text \<open>
  \<^verbatim>\<open>writeErrorResponse\<close>. The error value that it receives goes to the log only, so the
  model does not pass it.
\<close>

definition writeErrorResponse :: "int \<Rightarrow> string \<Rightarrow> string \<Rightarrow> HTTPResponse" where
  "writeErrorResponse status code message =
     \<lparr> RespStatus = status, RespBody = ErrorBody message code \<rparr>"

text \<open>The services that a \<^verbatim>\<open>FaceHandler\<close> holds, with what they hold in turn.\<close>

record Services =
  svcNet :: Net
  svcLimits :: LimitsConfig
  svcClassifier :: Pigo
  svcPigoConfig :: PigoConfig
  svcCodec :: Codec
  svcRound :: "rat \<Rightarrow> rat"

text \<open>
  The two steps that every handler takes after it has checked the request: the download,
  then the detection, each followed by its \<^verbatim>\<open>if err != nil\<close> block. The rest of the
  handler is the continuation \<open>k\<close>.
\<close>

definition withImage ::
  "download_error + Image \<times> ImageMetadata \<Rightarrow> (Image \<Rightarrow> ImageMetadata \<Rightarrow> HTTPResponse)
     \<Rightarrow> HTTPResponse" where
  "withImage downloaded k =
     (case downloaded of
        Inl err \<Rightarrow> writeErrorResponse 400 ''IMAGE_DOWNLOAD_FAILED'' ''Failed to download image''
      | Inr (img, metadata) \<Rightarrow> k img metadata)"

definition withFaces ::
  "detect_error + Face list \<Rightarrow> (Face list \<Rightarrow> HTTPResponse) \<Rightarrow> HTTPResponse" where
  "withFaces detected k =
     (case detected of
        Inl err \<Rightarrow> writeErrorResponse 500 ''FACE_DETECTION_FAILED'' ''Face detection failed''
      | Inr faces \<Rightarrow> k faces)"

text \<open>\<^verbatim>\<open>DetectHandler\<close>\<close>

definition DetectHandler :: "Services \<Rightarrow> FaceDetectionRequest option \<Rightarrow> HTTPResponse" where
  "DetectHandler svc decoded =
     (case decoded of
        None \<Rightarrow> writeErrorResponse 400 ''INVALID_REQUEST'' ''Invalid JSON request''
      | Some req \<Rightarrow>
          if det_ImageURL req = []
          then writeErrorResponse 400 ''MISSING_IMAGE_URL'' ''Image URL is required''
          else
            withImage (DownloadImage (svcNet svc) (svcLimits svc) (det_ImageURL req))
              (\<lambda>img metadata.
                 withFaces (DetectFaces (svcClassifier svc) (svcPigoConfig svc) img)
                   (\<lambda>faces.
                      \<lparr> RespStatus = 200,
                        RespBody = DetectionBody faces (int (length faces)) metadata \<rparr>)))"

text \<open>\<^verbatim>\<open>ValidateHandler\<close>\<close>

definition ValidateHandler :: "Services \<Rightarrow> SelfieValidationRequest option \<Rightarrow> HTTPResponse" where
  "ValidateHandler svc decoded =
     (case decoded of
        None \<Rightarrow> writeErrorResponse 400 ''INVALID_REQUEST'' ''Invalid JSON request''
      | Some req \<Rightarrow>
          if val_ImageURL req = []
          then writeErrorResponse 400 ''MISSING_IMAGE_URL'' ''Image URL is required''
          else
            (let minFaces = (if val_MinFaces req = 0 then 1 else val_MinFaces req);
                 maxFaces = (if val_MaxFaces req = 0 then 1 else val_MaxFaces req)
             in withImage (DownloadImage (svcNet svc) (svcLimits svc) (val_ImageURL req))
                  (\<lambda>img metadata.
                     withFaces (DetectFaces (svcClassifier svc) (svcPigoConfig svc) img)
                       (\<lambda>faces.
                          \<lparr> RespStatus = 200,
                            RespBody = ValidationBody
                              (ValidateSelfie (svcRound svc) faces minFaces maxFaces) \<rparr>))))"

text \<open>
  \<^verbatim>\<open>DetectVisualHandler\<close>. The decoded image is the only image in memory when
  \<^verbatim>\<open>DrawFaceCircles\<close> is called.
\<close>

definition DetectVisualHandler :: "Services \<Rightarrow> VisualDetectionRequest option \<Rightarrow> HTTPResponse" where
  "DetectVisualHandler svc decoded =
     (case decoded of
        None \<Rightarrow> writeErrorResponse 400 ''INVALID_REQUEST'' ''Invalid JSON request''
      | Some req \<Rightarrow>
          if vis_ImageURL req = []
          then writeErrorResponse 400 ''MISSING_IMAGE_URL'' ''Image URL is required''
          else
            (let circleColorName = (if vis_CircleColor req = [] then ''red''
                                    else vis_CircleColor req);
                 lineWidth = (if vis_LineWidth req = 0 then 3 else vis_LineWidth req)
             in withImage (DownloadImage (svcNet svc) (svcLimits svc) (vis_ImageURL req))
                  (\<lambda>img metadata.
                     withFaces (DetectFaces (svcClassifier svc) (svcPigoConfig svc) img)
                       (\<lambda>faces.
                          (let circleColor = ParseColor circleColorName;
                               circleOpts = \<lparr> Color = circleColor, LineWidth = lineWidth \<rparr>
                           in case snd (DrawFaceCircles (svcCodec svc) 0 faces circleOpts [img]) of
                                Inl err \<Rightarrow>
                                  writeErrorResponse 500 ''IMAGE_PROCESSING_FAILED''
                                    ''Failed to process image''
                              | Inr imageBase64 \<Rightarrow>
                                  \<lparr> RespStatus = 200,
                                    RespBody = VisualBody imageBase64 faces
                                                 (int (length faces)) metadata \<rparr>)))))"

section \<open>Concrete inputs for the examples\<close>

text \<open>
  Two PNG files, byte for byte: a 1 by 1 image of 67 bytes whose pixel is the grey 128,
  and a 65536 by 1 image of 142 bytes whose pixels are black. Both are 8-bit greyscale
  files with the three chunks \<open>IHDR\<close>, \<open>IDAT\<close>, \<open>IEND\<close>. With them the images
  that package \<^verbatim>\<open>image/png\<close> decodes them to, grey images whose colour outside the
  bounds is black, and the first six bytes of a GIF file.
\<close>

definition onePixelPng :: string where
  "onePixelPng =
     [ CHR 0x89, CHR 0x50, CHR 0x4E, CHR 0x47, CHR 0x0D, CHR 0x0A, CHR 0x1A, CHR 0x0A,
       CHR 0x00, CHR 0x00, CHR 0x00, CHR 0x0D, CHR 0x49, CHR 0x48, CHR 0x44, CHR 0x52,
       CHR 0x00, CHR 0x00, CHR 0x00, CHR 0x01, CHR 0x00, CHR 0x00, CHR 0x00, CHR 0x01,
       CHR 0x08, CHR 0x00, CHR 0x00, CHR 0x00, CHR 0x00, CHR 0x3A, CHR 0x7E, CHR 0x9B,
       CHR 0x55, CHR 0x00, CHR 0x00, CHR 0x00, CHR 0x0A, CHR 0x49, CHR 0x44, CHR 0x41,
       CHR 0x54, CHR 0x78, CHR 0xDA, CHR 0x63, CHR 0x68, CHR 0x00, CHR 0x00, CHR 0x00,
       CHR 0x82, CHR 0x00, CHR 0x81, CHR 0xDA, CHR 0x45, CHR 0x08, CHR 0x3B, CHR 0x00,
       CHR 0x00, CHR 0x00, CHR 0x00, CHR 0x49, CHR 0x45, CHR 0x4E, CHR 0x44, CHR 0xAE,
       CHR 0x42, CHR 0x60, CHR 0x82 ]"

definition widePng :: string where
  "widePng =
     [ CHR 0x89, CHR 0x50, CHR 0x4E, CHR 0x47, CHR 0x0D, CHR 0x0A, CHR 0x1A, CHR 0x0A,
       CHR 0x00, CHR 0x00, CHR 0x00, CHR 0x0D, CHR 0x49, CHR 0x48, CHR 0x44, CHR 0x52,
       CHR 0x00, CHR 0x01, CHR 0x00, CHR 0x00, CHR 0x00, CHR 0x00, CHR 0x00, CHR 0x01,
       CHR 0x08, CHR 0x00, CHR 0x00, CHR 0x00, CHR 0x00, CHR 0x4E, CHR 0x19, CHR 0xBC,
       CHR 0x04, CHR 0x00, CHR 0x00, CHR 0x00, CHR 0x55, CHR 0x49, CHR 0x44, CHR 0x41,
       CHR 0x54, CHR 0x78, CHR 0xDA, CHR 0xED, CHR 0xC1, CHR 0x01, CHR 0x01, CHR 0x00,
       CHR 0x00, CHR 0x00, CHR 0x82, CHR 0x20, CHR 0xFF, CHR 0xAF, CHR 0xAE, CHR 0x21,
       CHR 0x40, CHR 0x01, CHR 0x00, CHR 0x00, CHR 0x00, CHR 0x00, CHR 0x00, CHR 0x00,
       CHR 0x00, CHR 0x00, CHR 0x00, CHR 0x00, CHR 0x00, CHR 0x00, CHR 0x00, CHR 0x00,
       CHR 0x00, CHR 0x00, CHR 0x00, CHR 0x00, CHR 0x00, CHR 0x00, CHR 0x00, CHR 0x00,
       CHR 0x00, CHR 0x00, CHR 0x00, CHR 0x00, CHR 0x00, CHR 0x00, CHR 0x00, CHR 0x00,
       CHR 0x00, CHR 0x00, CHR 0x00, CHR 0x00, CHR 0x00, CHR 0x00, CHR 0x00, CHR 0x00,
       CHR 0x00, CHR 0x00, CHR 0x00, CHR 0x00, CHR 0x00, CHR 0x00, CHR 0x00, CHR 0x00,
       CHR 0x00, CHR 0x00, CHR 0x00, CHR 0x00, CHR 0x00, CHR 0x00, CHR 0x00, CHR 0x00,
       CHR 0x00, CHR 0x00, CHR 0x00, CHR 0x00, CHR 0x00, CHR 0x00, CHR 0x00, CHR 0x00,
       CHR 0xC0, CHR 0x0D, CHR 0x00, CHR 0x10, CHR 0x00, CHR 0x01, CHR 0xD2, CHR 0x25,
       CHR 0x94, CHR 0x11, CHR 0x00, CHR 0x00, CHR 0x00, CHR 0x00, CHR 0x49, CHR 0x45,
       CHR 0x4E, CHR 0x44, CHR 0xAE, CHR 0x42, CHR 0x60, CHR 0x82 ]"

definition onePixelImage :: Image where
  "onePixelImage =
     \<lparr> Bounds = \<lparr>MinX = 0, MinY = 0, MaxX = 1, MaxY = 1\<rparr>,
       At = (\<lambda>p. if p = (0, 0) then RGBA 128 128 128 255 else RGBA 0 0 0 255) \<rparr>"

definition wideImage :: Image where
  "wideImage =
     \<lparr> Bounds = \<lparr>MinX = 0, MinY = 0, MaxX = 65536, MaxY = 1\<rparr>,
       At = (\<lambda>p. RGBA 0 0 0 255) \<rparr>"

definition gifData :: string where
  "gifData = ''GIF89a''"

text \<open>
  Limits with the default values of \<^verbatim>\<open>config.Load\<close>, and a network given by two
  tables: the URLs that parse, and the responses of the servers. Its PNG decoder decodes
  the two files above and nothing else; no example has JPEG data, and its JPEG decoder
  is never called.
\<close>

definition exampleLimits :: LimitsConfig where
  "exampleLimits =
     \<lparr> MaxImageSize = 5242880, MaxWidth = 2000, MaxHeight = 2000,
       RateLimit = 100, RateBurst = 10 \<rparr>"

definition exampleNet :: Net where
  "exampleNet =
     \<lparr> url_Parse = map_of
         [ (''https://example.com/face.jpg'', \<lparr>Scheme = ''https'', Host = ''example.com''\<rparr>),
           (''https://example.com/face.png'', \<lparr>Scheme = ''https'', Host = ''example.com''\<rparr>),
           (''https://example.com/stream.png'', \<lparr>Scheme = ''https'', Host = ''example.com''\<rparr>),
           (''https://example.com/wide.png'', \<lparr>Scheme = ''https'', Host = ''example.com''\<rparr>),
           (''https://example.com/anim.gif'', \<lparr>Scheme = ''https'', Host = ''example.com''\<rparr>),
           (''https://example.com/png.gif'', \<lparr>Scheme = ''https'', Host = ''example.com''\<rparr>),
           (''https://example.com/huge.gif'', \<lparr>Scheme = ''https'', Host = ''example.com''\<rparr>),
           (''https://example.com/page.html'', \<lparr>Scheme = ''https'', Host = ''example.com''\<rparr>),
           (''ftp://example.com/face.jpg'', \<lparr>Scheme = ''ftp'', Host = ''example.com''\<rparr>),
           (''http://LocalHost:8080/face.jpg'', \<lparr>Scheme = ''http'', Host = ''LocalHost:8080''\<rparr>),
           (''http://192.168.1.5/face.jpg'', \<lparr>Scheme = ''http'', Host = ''192.168.1.5''\<rparr>) ],
       client_Do = map_of
         [ (''https://example.com/face.png'',
              \<lparr>StatusCode = 200, Status = ''200 OK'', ContentType = ''image/png'',
               ContentLength = 67, Body = onePixelPng\<rparr>),
           (''https://example.com/stream.png'',
              \<lparr>StatusCode = 200, Status = ''200 OK'', ContentType = ''image/png'',
               ContentLength = - 1, Body = onePixelPng\<rparr>),
           (''https://example.com/wide.png'',
              \<lparr>StatusCode = 200, Status = ''200 OK'', ContentType = ''image/png'',
               ContentLength = 142, Body = widePng\<rparr>),
           (''https://example.com/anim.gif'',
              \<lparr>StatusCode = 200, Status = ''200 OK'', ContentType = ''image/gif'',
               ContentLength = 6, Body = gifData\<rparr>),
           (''https://example.com/png.gif'',
              \<lparr>StatusCode = 200, Status = ''200 OK'', ContentType = ''image/gif'',
               ContentLength = 67, Body = onePixelPng\<rparr>),
           (''https://example.com/huge.gif'',
              \<lparr>StatusCode = 200, Status = ''200 OK'', ContentType = ''image/gif'',
               ContentLength = 6000000, Body = gifData\<rparr>),
           (''https://example.com/page.html'',
              \<lparr>StatusCode = 200, Status = ''200 OK'', ContentType = ''text/html; charset=utf-8'',
               ContentLength = 6, Body = ''<html>''\<rparr>) ],
       jpeg_Decode = (\<lambda>b. None),
       png_Decode = (\<lambda>b. if b = onePixelPng then Some onePixelImage
                          else if b = widePng then Some wideImage
                          else None) \<rparr>"

text \<open>
  An 8 by 8 image of one colour, and a codec whose encoder fails as \<^verbatim>\<open>jpeg.Encode\<close>
  does, on an image with a side of 65536 pixels or more.
\<close>

definition smallImage :: Image where
  "smallImage =
     \<lparr> Bounds = \<lparr>MinX = 0, MinY = 0, MaxX = 8, MaxY = 8\<rparr>,
       At = (\<lambda>p. RGBA 10 20 30 255) \<rparr>"

definition exampleCodec :: Codec where
  "exampleCodec =
     \<lparr> jpeg_Encode = (\<lambda>m q. if Dx (Bounds m) \<ge> 65536 \<or> Dy (Bounds m) \<ge> 65536 then None
                             else Some ''jpeg-bytes''),
       base64_EncodeToString = (\<lambda>b. ''anBlZy1ieXRlcw=='') \<rparr>"

text \<open>
  A face with a given confidence, a classifier that finds no face, as there is none in
  the two decoded images, the default detector configuration, and the services built from
  the examples; \<open>wideServices\<close> allows images up to 70000 pixels wide.
\<close>

definition exampleFace :: "float32 \<Rightarrow> Face" where
  "exampleFace c = \<lparr>X = 260, Y = 160, Width = 80, Height = 80, Confidence = c\<rparr>"

definition noFaceClassifier :: Pigo where
  "noFaceClassifier =
     \<lparr> RgbToGrayscale = (\<lambda>m. []),
       RunCascade = (\<lambda>p a. []),
       ClusterDetections = (\<lambda>ds t. ds) \<rparr>"

definition examplePigoConfig :: PigoConfig where
  "examplePigoConfig =
     \<lparr> MinSize = 25, MaxSize = 1000, ShiftFactor = 1 / 5, ScaleFactor = 11 / 10,
       IoUThreshold = 3 / 5, MinConfidence = 12 \<rparr>"

definition exampleServices :: Services where
  "exampleServices =
     \<lparr> svcNet = exampleNet, svcLimits = exampleLimits, svcClassifier = noFaceClassifier,
       svcPigoConfig = examplePigoConfig, svcCodec = exampleCodec, svcRound = round32 \<rparr>"

definition wideServices :: Services where
  "wideServices = exampleServices \<lparr> svcLimits := exampleLimits \<lparr> MaxWidth := 70000 \<rparr> \<rparr>"

section \<open>Properties of the face detector\<close>

lemma filterDetections_eq:
  "filterDetections m acc ds = acc @ filter (\<lambda>d. m \<le> Q d) ds"
  by (induction ds arbitrary: acc) auto

lemma DetectFaces_eq:
  "DetectFaces classifier config img =
     Inr (map toFace (filter (\<lambda>d. MinConfidence config \<le> Q d)
       (ClusterDetections classifier
          (RunCascade classifier
             (cascadeParams config (RgbToGrayscale classifier img)
                (MaxX (Bounds img)) (MaxY (Bounds img))) 0)
          (IoUThreshold config))))"
  by (simp add: DetectFaces_def filterDetections_eq Let_def)

text \<open>
  Claim C1. Let \<open>clustered\<close> be what the clustering returns and \<open>survivors\<close> the
  detections among them whose score is at least \<open>MinConfidence\<close>. \<open>DetectFaces\<close>
  returns one face per survivor, in the same order, with width and height equal to the
  detection's scale, \<open>x = col - scale/2\<close> and \<open>y = row - scale/2\<close> with the quotient
  truncated, and the detection's score as confidence. When the clustering returns the single
  detection with row 200, column 300, scale 80 and score 20 and \<open>MinConfidence\<close> is 12,
  the result is the single face with x 260, y 160, width 80, height 80 and confidence 20.
\<close>

theorem DetectFaces_face_geometry:
  assumes "clustered = ClusterDetections classifier
             (RunCascade classifier
                (cascadeParams config (RgbToGrayscale classifier img)
                (MaxX (Bounds img)) (MaxY (Bounds img))) 0)
             (IoUThreshold config)"
    and "survivors = filter (\<lambda>d. MinConfidence config \<le> Q d) clustered"
  shows "\<exists>faces. DetectFaces classifier config img = Inr faces
           \<and> length faces = length survivors
           \<and> (\<forall>i < length survivors.
                 Width (faces ! i) = Scale (survivors ! i)
               \<and> Height (faces ! i) = Scale (survivors ! i)
               \<and> X (faces ! i) = Col (survivors ! i) - go_quo (Scale (survivors ! i)) 2
               \<and> Y (faces ! i) = Row (survivors ! i) - go_quo (Scale (survivors ! i)) 2
               \<and> Confidence (faces ! i) = Q (survivors ! i))
           \<and> (clustered = [\<lparr>Row = 200, Col = 300, Scale = 80, Q = 20\<rparr>]
                \<and> MinConfidence config = 12
              \<longrightarrow> faces = [\<lparr>X = 260, Y = 160, Width = 80, Height = 80, Confidence = 20\<rparr>])"
  using assms by (auto simp: DetectFaces_eq toFace_def go_quo_def)

theorem DetectFaces_face_geometry_witness:
  "DetectFaces
     \<lparr>RgbToGrayscale = (\<lambda>u. []),
      RunCascade = (\<lambda>p a. [\<lparr>Row = 200, Col = 300, Scale = 80, Q = 20\<rparr>]),
      ClusterDetections = (\<lambda>ds t. ds)\<rparr>
     \<lparr>MinSize = 25, MaxSize = 1000, ShiftFactor = 1/5, ScaleFactor = 11/10,
      IoUThreshold = 3/5, MinConfidence = 12\<rparr>
     \<lparr>Bounds = \<lparr>MinX = 0, MinY = 0, MaxX = 640, MaxY = 480\<rparr>, At = (\<lambda>p. RGBA 0 0 0 0)\<rparr>
   = Inr [\<lparr>X = 260, Y = 160, Width = 80, Height = 80, Confidence = 20\<rparr>]"
  using DetectFaces_face_geometry
    [OF refl refl,
     of "\<lparr>RgbToGrayscale = (\<lambda>u. []),
      RunCascade = (\<lambda>p a. [\<lparr>Row = 200, Col = 300, Scale = 80, Q = 20\<rparr>]),
      ClusterDetections = (\<lambda>ds t. ds)\<rparr>"
     "\<lparr>MinSize = 25, MaxSize = 1000, ShiftFactor = 1/5, ScaleFactor = 11/10,
      IoUThreshold = 3/5, MinConfidence = 12\<rparr>" 
     "\<lparr>Bounds = \<lparr>MinX = 0, MinY = 0, MaxX = 640, MaxY = 480\<rparr>, At = (\<lambda>p. RGBA 0 0 0 0)\<rparr>"]
  by auto

text \<open>
  Claim C4. The filtering loop of \<open>DetectFaces\<close> keeps exactly the clustered detections
  whose score is greater than or equal to \<open>MinConfidence\<close>, and the faces returned are
  those of the detections kept: a detection whose score equals \<open>MinConfidence\<close> is kept,
  one strictly below is dropped, and when every score is below the threshold the function
  returns the empty face list, without an error.
\<close>

theorem DetectFaces_confidence_filter:
  assumes "clustered = ClusterDetections classifier
             (RunCascade classifier
                (cascadeParams config (RgbToGrayscale classifier img)
                (MaxX (Bounds img)) (MaxY (Bounds img))) 0)
             (IoUThreshold config)"
  shows "filterDetections (MinConfidence config) [] clustered
           = filter (\<lambda>d. Q d \<ge> MinConfidence config) clustered
       \<and> DetectFaces classifier config img
           = Inr (map toFace (filterDetections (MinConfidence config) [] clustered))
       \<and> (\<forall>d \<in> set clustered.
             (Q d = MinConfidence config
                \<longrightarrow> d \<in> set (filterDetections (MinConfidence config) [] clustered))
           \<and> (Q d < MinConfidence config
                \<longrightarrow> d \<notin> set (filterDetections (MinConfidence config) [] clustered)))
       \<and> ((\<forall>d \<in> set clustered. Q d < MinConfidence config)
             \<longrightarrow> DetectFaces classifier config img = Inr [])"
  using assms by (auto simp: DetectFaces_eq filterDetections_eq filter_empty_conv)

theorem DetectFaces_confidence_filter_witness:
  "DetectFaces
     \<lparr>RgbToGrayscale = (\<lambda>u. []),
      RunCascade = (\<lambda>p a. [\<lparr>Row = 200, Col = 300, Scale = 80, Q = 12\<rparr>,
                           \<lparr>Row = 50, Col = 60, Scale = 30, Q = 47/4\<rparr>]),
      ClusterDetections = (\<lambda>ds t. ds)\<rparr>
     \<lparr>MinSize = 25, MaxSize = 1000, ShiftFactor = 1/5, ScaleFactor = 11/10,
      IoUThreshold = 3/5, MinConfidence = 12\<rparr>
     \<lparr>Bounds = \<lparr>MinX = 0, MinY = 0, MaxX = 640, MaxY = 480\<rparr>, At = (\<lambda>p. RGBA 0 0 0 0)\<rparr>
    = Inr [\<lparr>X = 260, Y = 160, Width = 80, Height = 80, Confidence = 12\<rparr>]
   \<and> DetectFaces
     \<lparr>RgbToGrayscale = (\<lambda>u. []),
      RunCascade = (\<lambda>p a. [\<lparr>Row = 50, Col = 60, Scale = 30, Q = 47/4\<rparr>]),
      ClusterDetections = (\<lambda>ds t. ds)\<rparr>
     \<lparr>MinSize = 25, MaxSize = 1000, ShiftFactor = 1/5, ScaleFactor = 11/10,
      IoUThreshold = 3/5, MinConfidence = 12\<rparr>
     \<lparr>Bounds = \<lparr>MinX = 0, MinY = 0, MaxX = 640, MaxY = 480\<rparr>, At = (\<lambda>p. RGBA 0 0 0 0)\<rparr>
    = Inr []"
  using DetectFaces_confidence_filter
    [OF refl,
     where classifier = "\<lparr>RgbToGrayscale = (\<lambda>u. []),
      RunCascade = (\<lambda>p a. [\<lparr>Row = 200, Col = 300, Scale = 80, Q = 12\<rparr>,
                           \<lparr>Row = 50, Col = 60, Scale = 30, Q = 47/4\<rparr>]),
      ClusterDetections = (\<lambda>ds t. ds)\<rparr>"
     and config = "\<lparr>MinSize = 25, MaxSize = 1000, ShiftFactor = 1/5, ScaleFactor = 11/10,
      IoUThreshold = 3/5, MinConfidence = 12\<rparr>" 
     and img = "\<lparr>Bounds = \<lparr>MinX = 0, MinY = 0, MaxX = 640, MaxY = 480\<rparr>, At = (\<lambda>p. RGBA 0 0 0 0)\<rparr>"]
    DetectFaces_confidence_filter
    [OF refl,
     where classifier = "\<lparr>RgbToGrayscale = (\<lambda>u. []),
      RunCascade = (\<lambda>p a. [\<lparr>Row = 50, Col = 60, Scale = 30, Q = 47/4\<rparr>]),
      ClusterDetections = (\<lambda>ds t. ds)\<rparr>"
     and config = "\<lparr>MinSize = 25, MaxSize = 1000, ShiftFactor = 1/5, ScaleFactor = 11/10,
      IoUThreshold = 3/5, MinConfidence = 12\<rparr>" 
     and img = "\<lparr>Bounds = \<lparr>MinX = 0, MinY = 0, MaxX = 640, MaxY = 480\<rparr>, At = (\<lambda>p. RGBA 0 0 0 0)\<rparr>"]
  by (simp add: toFace_def go_quo_def filterDetections_eq)

subsection \<open>Selfie validation\<close>

lemma floor_rat_numerals: "\<lfloor>(numeral a :: rat) / numeral b\<rfloor> = numeral a div numeral b"
  using floor_divide_of_int_eq [of "numeral a" "numeral b", where ?'a = rat] by simp

lemma ceiling_rat_numerals:
  "\<lceil>(numeral a :: rat) / numeral b\<rceil> = - ((- numeral a) div numeral b)"
  using floor_divide_of_int_eq [of "- numeral a" "numeral b", where ?'a = rat]
  by (simp add: ceiling_def)

lemma round32_at:
  assumes "0 < q" and "ilog2 q = e" and "- 126 \<le> e" and "pow2 (e - 23) = u"
    and "roundHalfEven (q / u) = n" and "of_int n * u = r"
  shows "round32 q = r"
proof -
  have "max (ilog2 q) (- 126) = e" using assms(2,3) by simp
  then show ?thesis
    using assms by (simp add: round32_def Let_def del: max.absorb1 max.absorb2 max.absorb3 max.absorb4)
qed

lemmas float_eval = ilog2_def bits.simps pow2_def roundHalfEven_def Let_def
  floor_rat_numerals ceiling_rat_numerals

lemma round32_0: "round32 0 = 0"
  by (simp add: round32_def)

lemma round32_1: "round32 (1) = 1"
  by (rule round32_at [where e = "0" and u = "1 / 8388608" and n = 8388608])
     (simp_all add: float_eval)

lemma round32_2: "round32 (2) = 2"
  by (rule round32_at [where e = "1" and u = "1 / 4194304" and n = 8388608])
     (simp_all add: float_eval)

lemma round32_3: "round32 (3) = 3"
  by (rule round32_at [where e = "1" and u = "1 / 4194304" and n = 12582912])
     (simp_all add: float_eval)

lemma round32_9: "round32 (9) = 9"
  by (rule round32_at [where e = "3" and u = "1 / 1048576" and n = 9437184])
     (simp_all add: float_eval)

lemma round32_10: "round32 (10) = 10"
  by (rule round32_at [where e = "3" and u = "1 / 1048576" and n = 10485760])
     (simp_all add: float_eval)

lemma round32_15: "round32 (15) = 15"
  by (rule round32_at [where e = "3" and u = "1 / 1048576" and n = 15728640])
     (simp_all add: float_eval)

lemma round32_18: "round32 (18) = 18"
  by (rule round32_at [where e = "4" and u = "1 / 524288" and n = 9437184])
     (simp_all add: float_eval)

lemma round32_20: "round32 (20) = 20"
  by (rule round32_at [where e = "4" and u = "1 / 524288" and n = 10485760])
     (simp_all add: float_eval)

lemma round32_below_10: "round32 (10485759 / 1048576) = 10485759 / 1048576"
  by (rule round32_at [where e = "3" and u = "1 / 1048576" and n = 10485759])
     (simp_all add: float_eval)

lemma round32_tie: "round32 (31457279 / 1048576) = 30"
  by (rule round32_at [where e = 4 and u = "1 / 524288" and n = 15728640])
     (simp_all add: float_eval)

lemmas round32_values = round32_0 round32_1 round32_2 round32_3 round32_9 round32_10
  round32_15 round32_18 round32_20 round32_below_10 round32_tie

lemma ValidateSelfie_empty:
  "ValidateSelfie rnd [] minFaces maxFaces =
     \<lparr> IsValid = \<not> (0 < minFaces \<or> 0 > maxFaces),
       Issues = (if 0 < minFaces
                 then [''No faces detected in image'', ''Image may be too dark or blurry'']
                 else if 0 > maxFaces
                 then [''Multiple faces detected ('' @ fmt_d 0
                       @ '' found, expected '' @ fmt_d maxFaces @ '')'']
                 else []),
       SelfieConfidence = 0, FaceCount = 0 \<rparr>"
  by (simp add: ValidateSelfie_def)

lemma ValidateSelfie_nonempty:
  assumes "faces \<noteq> []"
  shows "ValidateSelfie rnd faces minFaces maxFaces =
     (let n = int (length faces);
          mean = rnd (foldl (\<lambda>t face. rnd (t + Confidence face)) 0 faces / rnd (of_int n));
          countIssues =
            (if n < minFaces
             then [''Too few faces detected ('' @ fmt_d n
                       @ '' found, expected at least '' @ fmt_d minFaces @ '')'']
             else if n > maxFaces
             then [''Multiple faces detected ('' @ fmt_d n
                       @ '' found, expected '' @ fmt_d maxFaces @ '')'']
             else [])
      in \<lparr> IsValid = (minFaces \<le> n \<and> n \<le> maxFaces \<and> \<not> mean < 10),
           Issues = countIssues
              @ (if mean < 10 then [''Low confidence score for detected face(s)''] else []),
           SelfieConfidence = mean, FaceCount = n \<rparr>)"
  using assms by (auto simp: ValidateSelfie_def Let_def)

lemma foldl_unrounded_sum:
  assumes "\<forall>k \<le> length faces.
             rnd (sum_list (map Confidence (take k faces))) = sum_list (map Confidence (take k faces))"
  shows "foldl (\<lambda>t face. rnd (t + Confidence face)) 0 faces = sum_list (map Confidence faces)"
  using assms
proof (induction faces rule: rev_induct)
  case Nil
  then show ?case by simp
next
  case (snoc face faces)
  have "\<forall>k \<le> length faces.
      rnd (sum_list (map Confidence (take k faces))) = sum_list (map Confidence (take k faces))"
  proof (intro allI impI)
    fix k assume "k \<le> length faces"
    then show "rnd (sum_list (map Confidence (take k faces)))
        = sum_list (map Confidence (take k faces))"
      using snoc.prems [rule_format, of k] by simp
  qed
  then have "foldl (\<lambda>t face. rnd (t + Confidence face)) 0 faces
      = sum_list (map Confidence faces)"
    by (rule snoc.IH)
  moreover have "rnd (sum_list (map Confidence (faces @ [face])))
      = sum_list (map Confidence (faces @ [face]))"
    using snoc.prems [rule_format, of "length (faces @ [face])"] by simp
  ultimately show ?case by simp
qed

text \<open>
  Claim C2, as the code has it. Write \<open>n\<close> for the number of faces and \<open>conf\<close> for
  what the \<^verbatim>\<open>float32\<close> arithmetic of the source computes: the running sum of the
  confidences, rounded after every addition, divided by the rounded \<open>n\<close> and rounded
  again. For every rounding function, every face list and every \<open>minFaces\<close> and
  \<open>maxFaces\<close>:
  \<^item> an empty list with \<open>minFaces \<ge> 1\<close> is invalid, with exactly the two issues about no
    faces and about a dark or blurry image, and confidence 0;
  \<^item> \<open>0 < n < minFaces\<close> is invalid with exactly one issue about the shortfall, followed
    only by the low-confidence issue when \<open>conf < 10\<close>;
  \<^item> \<open>n > maxFaces\<close> with \<open>n \<ge> minFaces\<close> is invalid with exactly one issue about
    the excess, followed only by the low-confidence issue when \<open>n > 0\<close> and
    \<open>conf < 10\<close>;
  \<^item> with \<open>minFaces \<le> n \<le> maxFaces\<close> the result is valid exactly when there is no
    low-confidence issue;
  \<^item> the confidence returned is 0 for \<open>n = 0\<close> and \<open>conf\<close> for \<open>n > 0\<close>, and
    \<open>conf < 10\<close> makes the result invalid and appends the single low-confidence issue;
  \<^item> \<open>conf\<close> is the arithmetic mean of the confidences whenever no step rounds: when
    the sums of the first \<open>k\<close> confidences, the count and the mean are values that the
    rounding leaves as they are;
  \<^item> one face of confidence 15 with \<open>minFaces = maxFaces = 1\<close> is valid, with no issue
    and confidence 15.
\<close>

theorem ValidateSelfie_verdict:
  "let r = ValidateSelfie rnd faces minFaces maxFaces;
       n = int (length faces);
       total = sum_list (map Confidence faces);
       conf = rnd (foldl (\<lambda>t face. rnd (t + Confidence face)) 0 faces / rnd (of_int n));
       low = (if 0 < n \<and> conf < 10 then [''Low confidence score for detected face(s)'']
              else [])
   in FaceCount r = n
    \<and> (faces = [] \<and> 1 \<le> minFaces \<longrightarrow>
          \<not> IsValid r
        \<and> Issues r = [''No faces detected in image'', ''Image may be too dark or blurry'']
        \<and> SelfieConfidence r = 0)
    \<and> (0 < n \<and> n < minFaces \<longrightarrow>
          \<not> IsValid r
        \<and> Issues r = [''Too few faces detected ('' @ fmt_d n
                         @ '' found, expected at least '' @ fmt_d minFaces @ '')''] @ low)
    \<and> (minFaces \<le> n \<and> maxFaces < n \<longrightarrow>
          \<not> IsValid r
        \<and> Issues r = [''Multiple faces detected ('' @ fmt_d n
                         @ '' found, expected '' @ fmt_d maxFaces @ '')''] @ low)
    \<and> (minFaces \<le> n \<and> n \<le> maxFaces \<longrightarrow>
          IsValid r = (low = []) \<and> Issues r = low)
    \<and> (n = 0 \<longrightarrow> SelfieConfidence r = 0)
    \<and> (0 < n \<longrightarrow> SelfieConfidence r = conf \<and> (conf < 10 \<longrightarrow> \<not> IsValid r))
    \<and> (0 < n
         \<and> (\<forall>k \<le> length faces.
                rnd (sum_list (map Confidence (take k faces)))
                  = sum_list (map Confidence (take k faces)))
         \<and> rnd (of_int n) = of_int n
         \<and> rnd (total / of_int n) = total / of_int n \<longrightarrow>
          SelfieConfidence r = total / of_int n)
    \<and> (faces = [face] \<and> Confidence face = 15 \<and> minFaces = 1 \<and> maxFaces = 1
          \<and> rnd 15 = 15 \<and> rnd 1 = 1 \<longrightarrow>
          IsValid r \<and> Issues r = [] \<and> SelfieConfidence r = 15 \<and> FaceCount r = 1)"
proof (cases "faces = []")
  case True
  then show ?thesis
    by (simp add: ValidateSelfie_empty Let_def)
next
  case False
  then have pos: "0 < int (length faces)" by simp
  have exact: "(\<forall>k \<le> length faces.
                rnd (sum_list (map Confidence (take k faces)))
                  = sum_list (map Confidence (take k faces)))
      \<Longrightarrow> foldl (\<lambda>t face. rnd (t + Confidence face)) 0 faces
            = sum_list (map Confidence faces)"
    by (rule foldl_unrounded_sum)
  show ?thesis
    unfolding ValidateSelfie_nonempty [OF False] Let_def
    using pos False exact by (auto simp: not_less)
qed


theorem ValidateSelfie_verdict_witness:
  "(let r = ValidateSelfie round32 [] 1 1
    in \<not> IsValid r
     \<and> Issues r = [''No faces detected in image'', ''Image may be too dark or blurry'']
     \<and> SelfieConfidence r = 0 \<and> FaceCount r = 0)
   \<and> (let r = ValidateSelfie round32 [] (- 2) (- 1)
      in \<not> IsValid r
       \<and> Issues r = [''Multiple faces detected (0 found, expected -1)'']
       \<and> SelfieConfidence r = 0 \<and> FaceCount r = 0)
   \<and> (let r = ValidateSelfie round32 [exampleFace 15] 1 1
      in IsValid r \<and> Issues r = [] \<and> SelfieConfidence r = 15 \<and> FaceCount r = 1)
   \<and> (let r = ValidateSelfie round32 [exampleFace 15] 2 3
      in \<not> IsValid r
       \<and> Issues r = [''Too few faces detected (1 found, expected at least 2)'']
       \<and> SelfieConfidence r = 15 \<and> FaceCount r = 1)
   \<and> (let r = ValidateSelfie round32 [exampleFace 15, exampleFace 3] 1 1
      in \<not> IsValid r
       \<and> Issues r = [''Multiple faces detected (2 found, expected 1)'',
                      ''Low confidence score for detected face(s)'']
       \<and> SelfieConfidence r = (15 + 3) / 2 \<and> FaceCount r = 2)"
proof -
  have steps: "\<forall>k \<le> length [exampleFace 15, exampleFace 3].
      round32 (sum_list (map Confidence (take k [exampleFace 15, exampleFace 3])))
        = sum_list (map Confidence (take k [exampleFace 15, exampleFace 3]))"
  proof (intro allI impI)
    fix k :: nat
    assume "k \<le> length [exampleFace 15, exampleFace 3]"
    then consider "k = 0" | "k = 1" | "k = 2"
      by (cases k) (auto simp: le_Suc_eq)
    then show "round32 (sum_list (map Confidence (take k [exampleFace 15, exampleFace 3])))
        = sum_list (map Confidence (take k [exampleFace 15, exampleFace 3]))"
      by cases (simp_all add: exampleFace_def round32_values)
  qed
  show ?thesis
    using ValidateSelfie_verdict [of round32 "[]" 1 1]
      ValidateSelfie_verdict [of round32 "[]" "- 2" "- 1"]
      ValidateSelfie_verdict [of round32 "[exampleFace 15]" 1 1 "exampleFace 15"]
      ValidateSelfie_verdict [of round32 "[exampleFace 15]" 2 3]
      ValidateSelfie_verdict [of round32 "[exampleFace 15, exampleFace 3]" 1 1]
      steps
    by (simp add: Let_def fmt_d_def digits.simps exampleFace_def round32_values)
qed

text \<open>
  Three faces with the confidences 10, 10 and \<open>10 - 2^-20\<close>, which are
  \<^verbatim>\<open>float32\<close> values. Their arithmetic mean is below 10. In \<^verbatim>\<open>float32\<close> the sum
  \<open>20 + (10 - 2^-20)\<close> lies half way between two neighbours and is rounded to 30, so the
  confidence returned is 10, there is no low-confidence issue and the result is valid.
\<close>

theorem ValidateSelfie_rounded_mean_counterexample:
  "round32 10 = 10
   \<and> round32 (10485759 / 1048576) = 10485759 / 1048576
   \<and> sum_list (map Confidence
         [exampleFace 10, exampleFace 10, exampleFace (10485759 / 1048576)]) / 3 < 10
   \<and> IsValid (ValidateSelfie round32
         [exampleFace 10, exampleFace 10, exampleFace (10485759 / 1048576)] 1 3)
   \<and> Issues (ValidateSelfie round32
         [exampleFace 10, exampleFace 10, exampleFace (10485759 / 1048576)] 1 3) = []
   \<and> SelfieConfidence (ValidateSelfie round32
         [exampleFace 10, exampleFace 10, exampleFace (10485759 / 1048576)] 1 3) = 10"
  by (simp add: ValidateSelfie_def Let_def exampleFace_def round32_values)

section \<open>Properties of the image downloader\<close>

subsection \<open>URL validation\<close>

lemma HasPrefix_iff: "HasPrefix s p \<longleftrightarrow> prefix p s"
  by (induction s p rule: HasPrefix.induct) auto

lemma Contains_iff: "Contains s sub \<longleftrightarrow> sublist sub s"
  by (induction s) (auto simp: HasPrefix_iff sublist_Cons_right)

lemma lowerChar_cases:
  "lowerChar x = x \<or> (x \<in> set upperLetters \<and> lowerChar x \<in> set lowerLetters)"
  unfolding lowerChar_def
  by (auto split: option.splits dest!: map_of_SomeD dest: set_zip_leftD set_zip_rightD)

lemma lowerChar_nonletter:
  assumes "c \<notin> set upperLetters" and "c \<notin> set lowerLetters"
  shows "lowerChar x = c \<longleftrightarrow> x = c"
  using assms lowerChar_cases [of x] lowerChar_cases [of c] by auto

lemma prefix_ToLower:
  assumes "set p \<inter> (set upperLetters \<union> set lowerLetters) = {}"
    and "CHR 0xC4 \<notin> set p" and "CHR 0xE2 \<notin> set p"
  shows "prefix p (ToLower h) \<longleftrightarrow> prefix p h"
  using assms
proof (induction h arbitrary: p rule: ToLower.induct)
  case 1
  then show ?case by simp
next
  case (2 c s)
  show ?case
  proof (cases p)
    case Nil
    then show ?thesis by simp
  next
    case (Cons q qs)
    have q: "q \<notin> set upperLetters" "q \<notin> set lowerLetters" "q \<noteq> CHR 0xC4" "q \<noteq> CHR 0xE2"
      using "2.prems" Cons by auto
    have letters: "CHR ''i'' \<in> set lowerLetters" "CHR ''k'' \<in> set lowerLetters"
      by (simp_all add: lowerLetters_def)
    have qik: "q \<noteq> CHR ''i''" "q \<noteq> CHR ''k''"
      using q(2) letters by auto
    have tail: "set qs \<inter> (set upperLetters \<union> set lowerLetters) = {}"
      "CHR 0xC4 \<notin> set qs" "CHR 0xE2 \<notin> set qs"
      using "2.prems" Cons by auto
    have same: "lowerChar c = q \<longleftrightarrow> c = q"
      using q(1,2) by (rule lowerChar_nonletter)
    consider (i) "c = CHR 0xC4 \<and> take 1 s = [CHR 0xB0]"
      | (k) "\<not> (c = CHR 0xC4 \<and> take 1 s = [CHR 0xB0])"
            "c = CHR 0xE2 \<and> take 2 s = [CHR 0x84, CHR 0xAA]"
      | (other) "\<not> (c = CHR 0xC4 \<and> take 1 s = [CHR 0xB0])"
            "\<not> (c = CHR 0xE2 \<and> take 2 s = [CHR 0x84, CHR 0xAA])"
      by blast
    then show ?thesis
    proof cases
      case i
      then show ?thesis using q(3) qik(1) Cons by auto
    next
      case k
      then show ?thesis using q(4) qik(2) Cons by auto
    next
      case other
      have "prefix qs (ToLower s) \<longleftrightarrow> prefix qs s"
        using "2.IH"(3) [OF other tail] .
      then show ?thesis using other same Cons by auto
    qed
  qed
qed

lemma digits_dot_nonletter:
  "set ''0123456789.'' \<inter> (set upperLetters \<union> set lowerLetters) = {}"
  "CHR 0xC4 \<notin> set ''0123456789.''" "CHR 0xE2 \<notin> set ''0123456789.''"
  by (simp_all add: upperLetters_def lowerLetters_def)

lemma isPrivateIP_iff:
  "isPrivateIP h \<longleftrightarrow>
     (\<exists>p \<in> set [''localhost'', ''127.0.0.1'', ''0.0.0.0'', ''::1'']. sublist p (ToLower h))
     \<or> prefix ''10.'' h \<or> prefix ''192.168.'' h \<or> prefix ''172.'' h"
proof -
  have sub: "\<And>p. set p \<subseteq> set ''0123456789.'' \<Longrightarrow> prefix p (ToLower h) \<longleftrightarrow> prefix p h"
    using digits_dot_nonletter by (intro prefix_ToLower) blast+
  have "prefix ''10.'' (ToLower h) \<longleftrightarrow> prefix ''10.'' h"
    by (rule sub) simp
  moreover have "prefix ''192.168.'' (ToLower h) \<longleftrightarrow> prefix ''192.168.'' h"
    by (rule sub) simp
  moreover have "prefix ''172.'' (ToLower h) \<longleftrightarrow> prefix ''172.'' h"
    by (rule sub) simp
  ultimately show ?thesis
    unfolding isPrivateIP_def Let_def privateHosts_def list_ex_iff HasPrefix_iff Contains_iff
    by simp
qed

lemma validateURL_accept:
  "validateURL net imageURL = None \<longleftrightarrow>
      imageURL \<noteq> [] \<and>
      (\<exists>u. url_Parse net imageURL = Some u
         \<and> (Scheme u = ''http'' \<or> Scheme u = ''https'')
         \<and> Host u \<noteq> []
         \<and> \<not> isPrivateIP (Host u))"
  by (auto simp: validateURL_def split: option.splits)

lemma validateURL_private:
  "url_Parse net imageURL = Some u \<Longrightarrow> isPrivateIP (Host u)
     \<Longrightarrow> validateURL net imageURL \<noteq> None"
  by (auto simp: validateURL_def)

lemma validateURL_ftp:
  "url_Parse net imageURL = Some u \<Longrightarrow> Scheme u = ''ftp''
     \<Longrightarrow> validateURL net imageURL \<noteq> None"
  by (auto simp: validateURL_def)

text \<open>
  Claim C3. \<open>validateURL\<close> returns no error exactly when the URL is not empty, parses,
  has the scheme \<open>http\<close> or \<open>https\<close>, has a host that is not empty, and the host
  matches no rule of \<open>isPrivateIP\<close>. A host matches a rule exactly when its lower-case
  form contains one of \<open>localhost\<close>, \<open>127.0.0.1\<close>, \<open>0.0.0.0\<close>, \<open>::1\<close> as a
  substring, or when it starts with \<open>10.\<close>, \<open>192.168.\<close> or \<open>172.\<close>. Every URL
  whose scheme is \<open>ftp\<close> and every URL whose host matches a rule is rejected with an
  error.
\<close>

theorem validateURL_policy:
  "(validateURL net imageURL = None \<longleftrightarrow>
      imageURL \<noteq> [] \<and>
      (\<exists>u. url_Parse net imageURL = Some u
         \<and> (Scheme u = ''http'' \<or> Scheme u = ''https'')
         \<and> Host u \<noteq> []
         \<and> \<not> isPrivateIP (Host u)))
   \<and> (\<forall>h. isPrivateIP h \<longleftrightarrow>
         (\<exists>p \<in> set [''localhost'', ''127.0.0.1'', ''0.0.0.0'', ''::1'']. sublist p (ToLower h))
         \<or> prefix ''10.'' h \<or> prefix ''192.168.'' h \<or> prefix ''172.'' h)
   \<and> (\<forall>u. url_Parse net imageURL = Some u \<and> Scheme u = ''ftp''
         \<longrightarrow> validateURL net imageURL \<noteq> None)
   \<and> (\<forall>u. url_Parse net imageURL = Some u
           \<and> ((\<exists>p \<in> set [''localhost'', ''127.0.0.1'', ''0.0.0.0'', ''::1''].
                  sublist p (ToLower (Host u)))
              \<or> prefix ''10.'' (Host u) \<or> prefix ''192.168.'' (Host u)
              \<or> prefix ''172.'' (Host u))
         \<longrightarrow> validateURL net imageURL \<noteq> None)"
proof (intro conjI allI impI)
  show "validateURL net imageURL = None \<longleftrightarrow>
      imageURL \<noteq> [] \<and>
      (\<exists>u. url_Parse net imageURL = Some u
         \<and> (Scheme u = ''http'' \<or> Scheme u = ''https'')
         \<and> Host u \<noteq> []
         \<and> \<not> isPrivateIP (Host u))"
    by (rule validateURL_accept)
next
  fix h
  show "isPrivateIP h \<longleftrightarrow>
         (\<exists>p \<in> set [''localhost'', ''127.0.0.1'', ''0.0.0.0'', ''::1'']. sublist p (ToLower h))
         \<or> prefix ''10.'' h \<or> prefix ''192.168.'' h \<or> prefix ''172.'' h"
    by (rule isPrivateIP_iff)
next
  fix u
  assume "url_Parse net imageURL = Some u \<and> Scheme u = ''ftp''"
  then show "validateURL net imageURL \<noteq> None"
    using validateURL_ftp by blast
next
  fix u
  assume a: "url_Parse net imageURL = Some u
           \<and> ((\<exists>p \<in> set [''localhost'', ''127.0.0.1'', ''0.0.0.0'', ''::1''].
                  sublist p (ToLower (Host u)))
              \<or> prefix ''10.'' (Host u) \<or> prefix ''192.168.'' (Host u)
              \<or> prefix ''172.'' (Host u))"
  then have "isPrivateIP (Host u)"
    unfolding isPrivateIP_iff [of "Host u"] by (rule conjunct2)
  with a show "validateURL net imageURL \<noteq> None"
    using validateURL_private by blast
qed


theorem validateURL_policy_witness:
  "validateURL exampleNet ''https://example.com/face.jpg'' = None
   \<and> validateURL exampleNet ''ftp://example.com/face.jpg'' \<noteq> None
   \<and> validateURL exampleNet ''http://LocalHost:8080/face.jpg'' \<noteq> None
   \<and> validateURL exampleNet ''http://192.168.1.5/face.jpg'' \<noteq> None"
proof -
  have parse:
    "url_Parse exampleNet ''https://example.com/face.jpg''
       = Some \<lparr>Scheme = ''https'', Host = ''example.com''\<rparr>"
    "url_Parse exampleNet ''ftp://example.com/face.jpg''
       = Some \<lparr>Scheme = ''ftp'', Host = ''example.com''\<rparr>"
    "url_Parse exampleNet ''http://LocalHost:8080/face.jpg''
       = Some \<lparr>Scheme = ''http'', Host = ''LocalHost:8080''\<rparr>"
    "url_Parse exampleNet ''http://192.168.1.5/face.jpg''
       = Some \<lparr>Scheme = ''http'', Host = ''192.168.1.5''\<rparr>"
    by (simp_all add: exampleNet_def)
  have public: "\<not> isPrivateIP ''example.com''"
    by (simp add: isPrivateIP_def privateHosts_def lowerChar_def
        upperLetters_def lowerLetters_def)
  have lower: "ToLower ''LocalHost:8080'' = ''localhost:8080''"
    by (simp add: lowerChar_def upperLetters_def lowerLetters_def)
  have local: "sublist ''localhost'' (ToLower ''LocalHost:8080'')"
    unfolding lower Contains_iff [symmetric] by simp
  have lan: "prefix ''192.168.'' ''192.168.1.5''"
    by simp
  have "validateURL exampleNet ''https://example.com/face.jpg'' = None"
    using validateURL_policy [of exampleNet "''https://example.com/face.jpg''", THEN conjunct1]
      parse(1) public by simp
  moreover have "validateURL exampleNet ''ftp://example.com/face.jpg'' \<noteq> None"
    using validateURL_policy [of exampleNet "''ftp://example.com/face.jpg''",
        THEN conjunct2, THEN conjunct2, THEN conjunct1] parse(2) by simp
  moreover have "validateURL exampleNet ''http://LocalHost:8080/face.jpg'' \<noteq> None"
    using validateURL_policy [of exampleNet "''http://LocalHost:8080/face.jpg''",
        THEN conjunct2, THEN conjunct2, THEN conjunct2, rule_format,
        of "\<lparr>Scheme = ''http'', Host = ''LocalHost:8080''\<rparr>"] parse(3) local
    by simp
  moreover have "validateURL exampleNet ''http://192.168.1.5/face.jpg'' \<noteq> None"
    using validateURL_policy [of exampleNet "''http://192.168.1.5/face.jpg''",
        THEN conjunct2, THEN conjunct2, THEN conjunct2, rule_format,
        of "\<lparr>Scheme = ''http'', Host = ''192.168.1.5''\<rparr>"] parse(4) lan
    by simp
  ultimately show ?thesis by simp
qed

subsection \<open>Content length and decoding\<close>

lemma match_prefix_free:
  "CHR ''?'' \<notin> set magic \<Longrightarrow> match magic b \<longleftrightarrow> magic = b"
  by (induction magic b rule: match.induct) auto

lemma sniff_test:
  assumes "CHR ''?'' \<notin> set magic"
  shows "length magic \<le> length body \<and> match magic (take (length magic) body)
           \<longleftrightarrow> prefix magic body"
proof
  assume "length magic \<le> length body \<and> match magic (take (length magic) body)"
  then have "magic = take (length magic) body"
    using assms by (simp add: match_prefix_free)
  then show "prefix magic body"
    by (metis take_is_prefix)
next
  assume "prefix magic body"
  then obtain zs where "body = magic @ zs"
    by (auto simp: prefix_def)
  then show "length magic \<le> length body \<and> match magic (take (length magic) body)"
    using assms by (simp add: match_prefix_free)
qed

lemma magic_no_wildcard: "CHR ''?'' \<notin> set jpegMagic" "CHR ''?'' \<notin> set pngMagic"
  by (simp_all add: jpegMagic_def pngMagic_def)

lemma sniff_registered:
  "sniff (registeredFormats net) body =
     (if prefix jpegMagic body
      then Some \<lparr> fname = ''jpeg'', fmagic = jpegMagic, fdecode = jpeg_Decode net \<rparr>
      else if prefix pngMagic body
      then Some \<lparr> fname = ''png'', fmagic = pngMagic, fdecode = png_Decode net \<rparr>
      else None)"
  by (simp add: registeredFormats_def sniff_test magic_no_wildcard)

lemma image_Decode_format:
  "image_Decode (registeredFormats net) body = Some (img, format)
     \<Longrightarrow> format = ''jpeg'' \<or> format = ''png''"
  by (auto simp: image_Decode_def sniff_registered split: option.splits if_splits)

lemma image_Decode_no_magic:
  "\<not> prefix jpegMagic body \<Longrightarrow> \<not> prefix pngMagic body
   \<Longrightarrow> image_Decode (registeredFormats net) body = None"
  by (simp add: image_Decode_def sniff_registered)

lemma DownloadImage_checked:
  assumes "validateURL net imageURL = None"
    and "client_Do net imageURL = Some resp"
    and "StatusCode resp = 200"
    and "isValidImageType (ContentType resp)"
    and "ContentLength resp \<le> MaxImageSize config"
  shows "DownloadImage net config imageURL =
     (case image_Decode (registeredFormats net) (Body resp) of
        None \<Rightarrow> Inl DecodeFailed
      | Some (img, format) \<Rightarrow>
          if Dx (Bounds img) > MaxWidth config \<or> Dy (Bounds img) > MaxHeight config
          then Inl (DimensionsTooLarge (Dx (Bounds img)) (Dy (Bounds img))
                      (MaxWidth config) (MaxHeight config))
          else Inr (img,
                    \<lparr> MetaWidth = Dx (Bounds img), MetaHeight = Dy (Bounds img),
                      Format = ToUpper format,
                      SizeBytes = ContentLength resp,
                      MetaURL = imageURL \<rparr>))"
proof -
  obtain u where "url_Parse net imageURL = Some u"
    using assms(1) validateURL_accept by blast
  then show ?thesis
    using assms by (simp add: DownloadImage_def Let_def split: option.splits prod.splits)
qed

lemma DownloadImage_too_large:
  "DownloadImage net config imageURL = Inl (ImageTooLarge a b)
    \<Longrightarrow> \<exists>resp. client_Do net imageURL = Some resp \<and> a = ContentLength resp
          \<and> b = MaxImageSize config \<and> ContentLength resp > MaxImageSize config"
  by (auto simp: DownloadImage_def Let_def split: option.splits if_splits prod.splits)

lemma DownloadImage_success_format:
  "DownloadImage net config imageURL = Inr (img, meta)
    \<Longrightarrow> \<exists>resp format. client_Do net imageURL = Some resp
          \<and> image_Decode (registeredFormats net) (Body resp) = Some (img, format)
          \<and> Format meta = ToUpper format"
  by (auto simp: DownloadImage_def Let_def split: option.splits if_splits prod.splits)

lemma ToUpper_names: "ToUpper ''jpeg'' = ''JPEG''" "ToUpper ''png'' = ''PNG''"
  by (simp_all add: ToUpper_def upperChar_def upperLetters_def lowerLetters_def)

lemma isValidImageType_gif_webp:
  "isValidImageType ''image/gif''" "isValidImageType ''image/webp''"
  by (simp_all add: isValidImageType_def validTypes_def SplitFirst_def
      lowerChar_def upperLetters_def lowerLetters_def)

lemma DownloadImage_invalid_url:
  "validateURL net imageURL = Some err \<Longrightarrow> DownloadImage net config imageURL = Inl (InvalidURL err)"
  by (simp add: DownloadImage_def)

lemma DownloadImage_bad_type:
  assumes "validateURL net imageURL = None"
    and "client_Do net imageURL = Some resp"
    and "StatusCode resp = 200"
    and "\<not> isValidImageType (ContentType resp)"
  shows "DownloadImage net config imageURL = Inl (UnsupportedContentType (ContentType resp))"
proof -
  obtain u where "url_Parse net imageURL = Some u"
    using assms(1) validateURL_accept by blast
  then show ?thesis
    using assms by (simp add: DownloadImage_def)
qed

lemma DownloadImage_rejects_length:
  assumes "validateURL net imageURL = None"
    and "client_Do net imageURL = Some resp"
    and "StatusCode resp = 200"
    and "isValidImageType (ContentType resp)"
    and "ContentLength resp > MaxImageSize config"
  shows "DownloadImage net config imageURL
           = Inl (ImageTooLarge (ContentLength resp) (MaxImageSize config))"
proof -
  obtain u where "url_Parse net imageURL = Some u"
    using assms(1) validateURL_accept by blast
  then show ?thesis
    using assms by (simp add: DownloadImage_def)
qed

lemma DownloadImage_decoder:
  assumes "DownloadImage net config imageURL = Inr (img, meta)"
  shows "\<exists>resp. client_Do net imageURL = Some resp
           \<and> (prefix jpegMagic (Body resp) \<and> jpeg_Decode net (Body resp) = Some img
                  \<and> Format meta = ''JPEG''
              \<or> \<not> prefix jpegMagic (Body resp) \<and> prefix pngMagic (Body resp)
                  \<and> png_Decode net (Body resp) = Some img \<and> Format meta = ''PNG'')"
proof -
  obtain resp :: Response and format
    where r: "client_Do net imageURL = Some resp"
      and d: "image_Decode (registeredFormats net) (Body resp) = Some (img, format)"
      and f: "Format meta = ToUpper format"
    using DownloadImage_success_format [OF assms] by blast
  from d have "prefix jpegMagic (Body resp) \<and> jpeg_Decode net (Body resp) = Some img
                  \<and> format = ''jpeg''
              \<or> \<not> prefix jpegMagic (Body resp) \<and> prefix pngMagic (Body resp)
                  \<and> png_Decode net (Body resp) = Some img \<and> format = ''png''"
    by (auto simp: image_Decode_def sniff_registered split: option.splits if_splits)
  with r f show ?thesis
    using ToUpper_names by auto
qed

lemma image_Decode_png:
  assumes "\<not> prefix jpegMagic body" and "prefix pngMagic body"
    and "png_Decode net body = Some img"
  shows "image_Decode (registeredFormats net) body = Some (img, ''png'')"
  using assms by (simp add: image_Decode_def sniff_registered)

lemma example_urls:
  "validateURL exampleNet ''https://example.com/face.png'' = None"
  "validateURL exampleNet ''https://example.com/stream.png'' = None"
  "validateURL exampleNet ''https://example.com/wide.png'' = None"
  "validateURL exampleNet ''https://example.com/anim.gif'' = None"
  "validateURL exampleNet ''https://example.com/png.gif'' = None"
  "validateURL exampleNet ''https://example.com/huge.gif'' = None"
  "validateURL exampleNet ''https://example.com/page.html'' = None"
  "validateURL exampleNet ''ftp://example.com/face.jpg'' = Some (UnsupportedScheme ''ftp'')"
  by (simp_all add: validateURL_def exampleNet_def isPrivateIP_def privateHosts_def
      lowerChar_def upperLetters_def lowerLetters_def)

lemma example_responses:
  "client_Do exampleNet ''https://example.com/face.png'' =
     Some \<lparr>StatusCode = 200, Status = ''200 OK'', ContentType = ''image/png'',
           ContentLength = 67, Body = onePixelPng\<rparr>"
  "client_Do exampleNet ''https://example.com/stream.png'' =
     Some \<lparr>StatusCode = 200, Status = ''200 OK'', ContentType = ''image/png'',
           ContentLength = - 1, Body = onePixelPng\<rparr>"
  "client_Do exampleNet ''https://example.com/wide.png'' =
     Some \<lparr>StatusCode = 200, Status = ''200 OK'', ContentType = ''image/png'',
           ContentLength = 142, Body = widePng\<rparr>"
  "client_Do exampleNet ''https://example.com/anim.gif'' =
     Some \<lparr>StatusCode = 200, Status = ''200 OK'', ContentType = ''image/gif'',
           ContentLength = 6, Body = gifData\<rparr>"
  "client_Do exampleNet ''https://example.com/png.gif'' =
     Some \<lparr>StatusCode = 200, Status = ''200 OK'', ContentType = ''image/gif'',
           ContentLength = 67, Body = onePixelPng\<rparr>"
  "client_Do exampleNet ''https://example.com/huge.gif'' =
     Some \<lparr>StatusCode = 200, Status = ''200 OK'', ContentType = ''image/gif'',
           ContentLength = 6000000, Body = gifData\<rparr>"
  "client_Do exampleNet ''https://example.com/page.html'' =
     Some \<lparr>StatusCode = 200, Status = ''200 OK'', ContentType = ''text/html; charset=utf-8'',
           ContentLength = 6, Body = ''<html>''\<rparr>"
  by (simp_all add: exampleNet_def)

lemma example_types:
  "isValidImageType ''image/png''"
  "\<not> isValidImageType ''text/html; charset=utf-8''"
  by (simp_all add: isValidImageType_def validTypes_def SplitFirst_def
      lowerChar_def upperLetters_def lowerLetters_def)

lemma example_magic:
  "\<not> prefix jpegMagic onePixelPng" "prefix pngMagic onePixelPng"
  "\<not> prefix jpegMagic widePng" "prefix pngMagic widePng"
  "\<not> prefix jpegMagic gifData" "\<not> prefix pngMagic gifData"
  by (simp_all add: jpegMagic_def pngMagic_def onePixelPng_def widePng_def gifData_def)

lemma example_files_differ: "widePng \<noteq> onePixelPng"
  by (simp add: widePng_def onePixelPng_def)

lemma example_decode:
  "image_Decode (registeredFormats exampleNet) onePixelPng = Some (onePixelImage, ''png'')"
  "image_Decode (registeredFormats exampleNet) widePng = Some (wideImage, ''png'')"
  "image_Decode (registeredFormats exampleNet) gifData = None"
  using example_magic example_files_differ
  by (simp_all add: image_Decode_def sniff_registered exampleNet_def)

lemma example_lengths: "length onePixelPng = 67" "length widePng = 142"
  by (simp_all add: onePixelPng_def widePng_def)

lemma example_downloads:
  "DownloadImage exampleNet exampleLimits ''https://example.com/face.png''
     = Inr (onePixelImage,
            \<lparr>MetaWidth = 1, MetaHeight = 1, Format = ''PNG'', SizeBytes = 67,
             MetaURL = ''https://example.com/face.png''\<rparr>)"
  "DownloadImage exampleNet exampleLimits ''https://example.com/png.gif''
     = Inr (onePixelImage,
            \<lparr>MetaWidth = 1, MetaHeight = 1, Format = ''PNG'', SizeBytes = 67,
             MetaURL = ''https://example.com/png.gif''\<rparr>)"
  "DownloadImage exampleNet (exampleLimits\<lparr>MaxWidth := 70000\<rparr>) ''https://example.com/wide.png''
     = Inr (wideImage,
            \<lparr>MetaWidth = 65536, MetaHeight = 1, Format = ''PNG'', SizeBytes = 142,
             MetaURL = ''https://example.com/wide.png''\<rparr>)"
  "DownloadImage exampleNet exampleLimits ''https://example.com/anim.gif'' = Inl DecodeFailed"
proof -
  show "DownloadImage exampleNet exampleLimits ''https://example.com/face.png''
     = Inr (onePixelImage,
            \<lparr>MetaWidth = 1, MetaHeight = 1, Format = ''PNG'', SizeBytes = 67,
             MetaURL = ''https://example.com/face.png''\<rparr>)"
    by (subst DownloadImage_checked [OF example_urls(1) example_responses(1)])
       (simp_all add: example_types example_decode ToUpper_names exampleLimits_def
          onePixelImage_def Dx_def Dy_def)
  show "DownloadImage exampleNet exampleLimits ''https://example.com/png.gif''
     = Inr (onePixelImage,
            \<lparr>MetaWidth = 1, MetaHeight = 1, Format = ''PNG'', SizeBytes = 67,
             MetaURL = ''https://example.com/png.gif''\<rparr>)"
    by (subst DownloadImage_checked [OF example_urls(5) example_responses(5)])
       (simp_all add: isValidImageType_gif_webp example_decode ToUpper_names exampleLimits_def
          onePixelImage_def Dx_def Dy_def)
  show "DownloadImage exampleNet (exampleLimits\<lparr>MaxWidth := 70000\<rparr>)
       ''https://example.com/wide.png''
     = Inr (wideImage,
            \<lparr>MetaWidth = 65536, MetaHeight = 1, Format = ''PNG'', SizeBytes = 142,
             MetaURL = ''https://example.com/wide.png''\<rparr>)"
    by (subst DownloadImage_checked [OF example_urls(3) example_responses(3)])
       (simp_all add: example_types example_decode ToUpper_names exampleLimits_def
          wideImage_def Dx_def Dy_def)
  show "DownloadImage exampleNet exampleLimits ''https://example.com/anim.gif'' = Inl DecodeFailed"
    by (subst DownloadImage_checked [OF example_urls(4) example_responses(4)])
       (simp_all add: isValidImageType_gif_webp example_decode exampleLimits_def)
qed

lemma example_download_errors:
  "DownloadImage exampleNet exampleLimits ''ftp://example.com/face.jpg''
     = Inl (InvalidURL (UnsupportedScheme ''ftp''))"
  "DownloadImage exampleNet exampleLimits ''https://example.com/page.html''
     = Inl (UnsupportedContentType ''text/html; charset=utf-8'')"
  "DownloadImage exampleNet exampleLimits ''https://example.com/huge.gif''
     = Inl (ImageTooLarge 6000000 5242880)"
proof -
  show "DownloadImage exampleNet exampleLimits ''ftp://example.com/face.jpg''
     = Inl (InvalidURL (UnsupportedScheme ''ftp''))"
    by (rule DownloadImage_invalid_url [OF example_urls(8)])
  show "DownloadImage exampleNet exampleLimits ''https://example.com/page.html''
     = Inl (UnsupportedContentType ''text/html; charset=utf-8'')"
    using DownloadImage_bad_type [OF example_urls(7) example_responses(7), of exampleLimits]
    by (simp add: example_types)
  show "DownloadImage exampleNet exampleLimits ''https://example.com/huge.gif''
     = Inl (ImageTooLarge 6000000 5242880)"
    using DownloadImage_rejects_length [OF example_urls(6) example_responses(6), of exampleLimits]
    by (simp add: isValidImageType_gif_webp exampleLimits_def)
qed

text \<open>
  Claim C9, as the code has it. The check before decoding rejects a response only when
  its declared content length is strictly greater than \<open>MaxImageSize\<close>. So a response
  whose content length is unknown, reported as \<open>-1\<close>, is never rejected as too large
  before decoding when the limit is not below \<open>-1\<close>, as every limit that is a size is
  not, whatever the number of bytes of its body. A response that passes the checks has its
  whole body handed to the decoder: the result depends on the body only through
  \<open>image_Decode\<close>, and no count of the bytes enters it.
\<close>

theorem DownloadImage_unknown_length:
  "(\<forall>a b. DownloadImage net config imageURL = Inl (ImageTooLarge a b) \<longrightarrow>
       (\<exists>resp. client_Do net imageURL = Some resp
          \<and> ContentLength resp > MaxImageSize config))
   \<and> (client_Do net imageURL = Some resp \<and> ContentLength resp = - 1
        \<and> - 1 \<le> MaxImageSize config \<longrightarrow>
       (\<forall>a b. DownloadImage net config imageURL \<noteq> Inl (ImageTooLarge a b)))
   \<and> (validateURL net imageURL = None \<and> client_Do net imageURL = Some resp
        \<and> StatusCode resp = 200 \<and> isValidImageType (ContentType resp)
        \<and> ContentLength resp \<le> MaxImageSize config \<longrightarrow>
       DownloadImage net config imageURL =
         (case image_Decode (registeredFormats net) (Body resp) of
            None \<Rightarrow> Inl DecodeFailed
          | Some (img, format) \<Rightarrow>
              if Dx (Bounds img) > MaxWidth config \<or> Dy (Bounds img) > MaxHeight config
              then Inl (DimensionsTooLarge (Dx (Bounds img)) (Dy (Bounds img))
                          (MaxWidth config) (MaxHeight config))
              else Inr (img,
                        \<lparr> MetaWidth = Dx (Bounds img), MetaHeight = Dy (Bounds img),
                          Format = ToUpper format,
                          SizeBytes = ContentLength resp,
                          MetaURL = imageURL \<rparr>)))"
proof (intro conjI allI impI)
  fix a b
  assume "DownloadImage net config imageURL = Inl (ImageTooLarge a b)"
  then show "\<exists>resp. client_Do net imageURL = Some resp
      \<and> ContentLength resp > MaxImageSize config"
    using DownloadImage_too_large by blast
next
  fix a b
  assume h: "client_Do net imageURL = Some resp \<and> ContentLength resp = - 1
        \<and> - 1 \<le> MaxImageSize config"
  show "DownloadImage net config imageURL \<noteq> Inl (ImageTooLarge a b)"
  proof
    assume "DownloadImage net config imageURL = Inl (ImageTooLarge a b)"
    then obtain r where "client_Do net imageURL = Some r"
      and "ContentLength r > MaxImageSize config"
      using DownloadImage_too_large by blast
    with h show False by simp
  qed
next
  assume "validateURL net imageURL = None \<and> client_Do net imageURL = Some resp
        \<and> StatusCode resp = 200 \<and> isValidImageType (ContentType resp)
        \<and> ContentLength resp \<le> MaxImageSize config"
  then show "DownloadImage net config imageURL =
         (case image_Decode (registeredFormats net) (Body resp) of
            None \<Rightarrow> Inl DecodeFailed
          | Some (img, format) \<Rightarrow>
              if Dx (Bounds img) > MaxWidth config \<or> Dy (Bounds img) > MaxHeight config
              then Inl (DimensionsTooLarge (Dx (Bounds img)) (Dy (Bounds img))
                          (MaxWidth config) (MaxHeight config))
              else Inr (img,
                        \<lparr> MetaWidth = Dx (Bounds img), MetaHeight = Dy (Bounds img),
                          Format = ToUpper format,
                          SizeBytes = ContentLength resp,
                          MetaURL = imageURL \<rparr>))"
    using DownloadImage_checked by blast
qed

theorem DownloadImage_unknown_length_witness:
  "int (length onePixelPng) > MaxImageSize (exampleLimits\<lparr>MaxImageSize := 50\<rparr>)
   \<and> DownloadImage exampleNet (exampleLimits\<lparr>MaxImageSize := 50\<rparr>)
        ''https://example.com/stream.png''
      = Inr (onePixelImage,
             \<lparr>MetaWidth = 1, MetaHeight = 1, Format = ''PNG'', SizeBytes = - 1,
              MetaURL = ''https://example.com/stream.png''\<rparr>)
   \<and> DownloadImage exampleNet (exampleLimits\<lparr>MaxImageSize := 50\<rparr>)
        ''https://example.com/stream.png''
      \<noteq> Inl (ImageTooLarge (- 1) 50)
   \<and> DownloadImage exampleNet exampleLimits ''https://example.com/huge.gif''
      = Inl (ImageTooLarge 6000000 5242880)
   \<and> (\<exists>resp. client_Do exampleNet ''https://example.com/huge.gif'' = Some resp
         \<and> ContentLength resp > MaxImageSize exampleLimits)"
proof -
  let ?config = "exampleLimits\<lparr>MaxImageSize := 50\<rparr>"
  let ?resp = "\<lparr>StatusCode = 200, Status = ''200 OK'', ContentType = ''image/png'',
           ContentLength = - 1, Body = onePixelPng\<rparr>"
  note inst = DownloadImage_unknown_length
    [of exampleNet ?config "''https://example.com/stream.png''" ?resp]
  have "DownloadImage exampleNet ?config ''https://example.com/stream.png''
      = Inr (onePixelImage,
             \<lparr>MetaWidth = 1, MetaHeight = 1, Format = ''PNG'', SizeBytes = - 1,
              MetaURL = ''https://example.com/stream.png''\<rparr>)"
    using inst [THEN conjunct2, THEN conjunct2] example_urls(2) example_responses(2)
      example_types(1) example_decode(1)
    by (simp add: exampleLimits_def ToUpper_names) (simp add: onePixelImage_def Dx_def Dy_def)
  moreover have "DownloadImage exampleNet ?config ''https://example.com/stream.png''
      \<noteq> Inl (ImageTooLarge (- 1) 50)"
    using inst [THEN conjunct2, THEN conjunct1] example_responses(2)
    by (simp add: exampleLimits_def)
  moreover have "int (length onePixelPng) > MaxImageSize ?config"
    by (simp add: example_lengths)
  moreover note huge = example_download_errors(3)
  moreover have "\<exists>resp. client_Do exampleNet ''https://example.com/huge.gif'' = Some resp
         \<and> ContentLength resp > MaxImageSize exampleLimits"
    using DownloadImage_unknown_length
      [of exampleNet exampleLimits "''https://example.com/huge.gif''", THEN conjunct1] huge
    by blast
  ultimately show ?thesis by simp
qed

text \<open>
  With the limit \<open>-2\<close>, which \<^verbatim>\<open>config.Load\<close> takes from the environment as it does
  any other integer, the unknown length \<open>-1\<close> is above the limit, and the response is
  rejected as too large before its body is read.
\<close>

theorem DownloadImage_negative_limit_counterexample:
  "client_Do exampleNet ''https://example.com/stream.png'' =
     Some \<lparr>StatusCode = 200, Status = ''200 OK'', ContentType = ''image/png'',
           ContentLength = - 1, Body = onePixelPng\<rparr>
   \<and> DownloadImage exampleNet (exampleLimits\<lparr>MaxImageSize := - 2\<rparr>)
        ''https://example.com/stream.png''
      = Inl (ImageTooLarge (- 1) (- 2))"
  using DownloadImage_rejects_length
    [OF example_urls(2) example_responses(2), of "exampleLimits\<lparr>MaxImageSize := - 2\<rparr>"]
  by (simp add: example_responses example_types)

text \<open>
  Claim C10, as the code has it. Only the JPEG and the PNG decoder are registered, and
  \<open>image_Decode\<close> chooses the decoder by the first bytes of the body, not by the content
  type. The content-type check accepts \<open>image/gif\<close> and \<open>image/webp\<close> (and, as
  \<^verbatim>\<open>strings.ToLower\<close> has it, the first of them written with the letter U+0130). A
  response that passes the checks of status, content type and content length gets the
  decoding error when its body starts with neither the JPEG nor the PNG magic bytes, as
  GIF and WebP data do not, and is decoded when its body starts with the PNG magic bytes
  and the PNG decoder accepts it, whatever its content type says. A successful result
  comes from a body that starts with the JPEG or the PNG magic bytes and that the decoder
  of that format accepted, and has the format \<open>JPEG\<close> or \<open>PNG\<close>.
\<close>

theorem DownloadImage_registered_formats:
  "isValidImageType ''image/gif'' \<and> isValidImageType ''image/webp''
   \<and> isValidImageType (CHR 0xC4 # CHR 0xB0 # ''mage/gif'')
   \<and> (\<forall>img meta. DownloadImage net config imageURL = Inr (img, meta) \<longrightarrow>
         (\<exists>resp. client_Do net imageURL = Some resp
            \<and> (prefix jpegMagic (Body resp) \<and> jpeg_Decode net (Body resp) = Some img
                   \<and> Format meta = ''JPEG''
               \<or> \<not> prefix jpegMagic (Body resp) \<and> prefix pngMagic (Body resp)
                   \<and> png_Decode net (Body resp) = Some img \<and> Format meta = ''PNG'')))
   \<and> (validateURL net imageURL = None \<and> client_Do net imageURL = Some resp
        \<and> StatusCode resp = 200 \<and> isValidImageType (ContentType resp)
        \<and> ContentLength resp \<le> MaxImageSize config
        \<and> \<not> prefix jpegMagic (Body resp) \<and> \<not> prefix pngMagic (Body resp) \<longrightarrow>
       DownloadImage net config imageURL = Inl DecodeFailed)
   \<and> (validateURL net imageURL = None \<and> client_Do net imageURL = Some resp
        \<and> StatusCode resp = 200 \<and> isValidImageType (ContentType resp)
        \<and> ContentLength resp \<le> MaxImageSize config
        \<and> \<not> prefix jpegMagic (Body resp) \<and> prefix pngMagic (Body resp)
        \<and> png_Decode net (Body resp) = Some decoded
        \<and> Dx (Bounds decoded) \<le> MaxWidth config \<and> Dy (Bounds decoded) \<le> MaxHeight config
        \<longrightarrow>
       DownloadImage net config imageURL =
         Inr (decoded,
              \<lparr> MetaWidth = Dx (Bounds decoded), MetaHeight = Dy (Bounds decoded),
                Format = ''PNG'', SizeBytes = ContentLength resp, MetaURL = imageURL \<rparr>))"
proof (intro conjI allI impI)
  show "isValidImageType ''image/gif''" "isValidImageType ''image/webp''"
    by (rule isValidImageType_gif_webp)+
  show "isValidImageType (CHR 0xC4 # CHR 0xB0 # ''mage/gif'')"
    by (simp add: isValidImageType_def validTypes_def SplitFirst_def
        lowerChar_def upperLetters_def lowerLetters_def)
next
  fix img meta
  assume "DownloadImage net config imageURL = Inr (img, meta)"
  then show "\<exists>resp. client_Do net imageURL = Some resp
            \<and> (prefix jpegMagic (Body resp) \<and> jpeg_Decode net (Body resp) = Some img
                   \<and> Format meta = ''JPEG''
               \<or> \<not> prefix jpegMagic (Body resp) \<and> prefix pngMagic (Body resp)
                   \<and> png_Decode net (Body resp) = Some img \<and> Format meta = ''PNG'')"
    by (rule DownloadImage_decoder)
next
  assume h: "validateURL net imageURL = None \<and> client_Do net imageURL = Some resp
        \<and> StatusCode resp = 200 \<and> isValidImageType (ContentType resp)
        \<and> ContentLength resp \<le> MaxImageSize config
        \<and> \<not> prefix jpegMagic (Body resp) \<and> \<not> prefix pngMagic (Body resp)"
  then have "image_Decode (registeredFormats net) (Body resp) = None"
    using image_Decode_no_magic by blast
  with h show "DownloadImage net config imageURL = Inl DecodeFailed"
    using DownloadImage_checked [of net imageURL resp config] by simp
next
  assume h: "validateURL net imageURL = None \<and> client_Do net imageURL = Some resp
        \<and> StatusCode resp = 200 \<and> isValidImageType (ContentType resp)
        \<and> ContentLength resp \<le> MaxImageSize config
        \<and> \<not> prefix jpegMagic (Body resp) \<and> prefix pngMagic (Body resp)
        \<and> png_Decode net (Body resp) = Some decoded
        \<and> Dx (Bounds decoded) \<le> MaxWidth config \<and> Dy (Bounds decoded) \<le> MaxHeight config"
  then have "image_Decode (registeredFormats net) (Body resp) = Some (decoded, ''png'')"
    using image_Decode_png by blast
  with h show "DownloadImage net config imageURL =
         Inr (decoded,
              \<lparr> MetaWidth = Dx (Bounds decoded), MetaHeight = Dy (Bounds decoded),
                Format = ''PNG'', SizeBytes = ContentLength resp, MetaURL = imageURL \<rparr>)"
    using DownloadImage_checked [of net imageURL resp config]
    by (simp add: ToUpper_names not_less [symmetric])
qed

theorem DownloadImage_registered_formats_witness:
  "DownloadImage exampleNet exampleLimits ''https://example.com/anim.gif'' = Inl DecodeFailed
   \<and> DownloadImage exampleNet exampleLimits ''https://example.com/png.gif''
      = Inr (onePixelImage,
             \<lparr>MetaWidth = 1, MetaHeight = 1, Format = ''PNG'', SizeBytes = 67,
              MetaURL = ''https://example.com/png.gif''\<rparr>)
   \<and> png_Decode exampleNet onePixelPng = Some onePixelImage"
proof -
  note inst = DownloadImage_registered_formats [of exampleNet exampleLimits]
  have decoded: "png_Decode exampleNet onePixelPng = Some onePixelImage"
    by (simp add: exampleNet_def)
  have gif: "DownloadImage exampleNet exampleLimits ''https://example.com/anim.gif''
      = Inl DecodeFailed"
    using inst [of "''https://example.com/anim.gif''"
        "\<lparr>StatusCode = 200, Status = ''200 OK'', ContentType = ''image/gif'',
           ContentLength = 6, Body = gifData\<rparr>",
        THEN conjunct2, THEN conjunct2, THEN conjunct2, THEN conjunct2, THEN conjunct1]
      example_urls(4) example_responses(4) isValidImageType_gif_webp(1) example_magic
    by (simp add: exampleLimits_def)
  have png: "DownloadImage exampleNet exampleLimits ''https://example.com/png.gif''
      = Inr (onePixelImage,
             \<lparr>MetaWidth = 1, MetaHeight = 1, Format = ''PNG'', SizeBytes = 67,
              MetaURL = ''https://example.com/png.gif''\<rparr>)"
    using inst [of "''https://example.com/png.gif''"
        "\<lparr>StatusCode = 200, Status = ''200 OK'', ContentType = ''image/gif'',
           ContentLength = 67, Body = onePixelPng\<rparr>" onePixelImage,
        THEN conjunct2, THEN conjunct2, THEN conjunct2, THEN conjunct2, THEN conjunct2]
      example_urls(5) example_responses(5) isValidImageType_gif_webp(1) example_magic decoded
    by (simp add: exampleLimits_def onePixelImage_def Dx_def Dy_def)
  have "\<exists>resp. client_Do exampleNet ''https://example.com/png.gif'' = Some resp
      \<and> (prefix jpegMagic (Body resp)
             \<and> jpeg_Decode exampleNet (Body resp) = Some onePixelImage
          \<or> \<not> prefix jpegMagic (Body resp) \<and> prefix pngMagic (Body resp)
             \<and> png_Decode exampleNet (Body resp) = Some onePixelImage)"
    using inst [of "''https://example.com/png.gif''", THEN conjunct2, THEN conjunct2,
        THEN conjunct2, THEN conjunct1] png
    by blast
  with gif png decoded show ?thesis by simp
qed

text \<open>
  Two responses with the content type \<open>image/gif\<close>. The body of the first is the PNG
  file of 67 bytes: the download succeeds, with the format \<open>PNG\<close>. The second declares
  a content length above the limit: the error is the one of the size check, not the one of
  the decoding.
\<close>

theorem DownloadImage_gif_label_counterexample:
  "client_Do exampleNet ''https://example.com/png.gif'' =
     Some \<lparr>StatusCode = 200, Status = ''200 OK'', ContentType = ''image/gif'',
           ContentLength = 67, Body = onePixelPng\<rparr>
   \<and> DownloadImage exampleNet exampleLimits ''https://example.com/png.gif''
      = Inr (onePixelImage,
             \<lparr>MetaWidth = 1, MetaHeight = 1, Format = ''PNG'', SizeBytes = 67,
              MetaURL = ''https://example.com/png.gif''\<rparr>)
   \<and> client_Do exampleNet ''https://example.com/huge.gif'' =
     Some \<lparr>StatusCode = 200, Status = ''200 OK'', ContentType = ''image/gif'',
           ContentLength = 6000000, Body = gifData\<rparr>
   \<and> DownloadImage exampleNet exampleLimits ''https://example.com/huge.gif''
      = Inl (ImageTooLarge 6000000 5242880)"
  by (simp add: example_responses example_downloads example_download_errors)

section \<open>Properties of the image processor\<close>

subsection \<open>Drawing is painting the visited points\<close>

lemma setPixelSafe_eq:
  "setPixelSafe img x y col h =
     (if inRect x y (Bounds (h ! img))
      then h[img := (h ! img) \<lparr> At := (At (h ! img)) ((x, y) := col) \<rparr>]
      else h)"
  by (simp add: setPixelSafe_def RGBA_Set_def inRect_def Let_def)

lemma setPixelSafe_outside:
  "\<not> inRect x y (Bounds (h ! img)) \<Longrightarrow> setPixelSafe img x y col h = h"
  by (simp add: setPixelSafe_eq)

lemma setPixelSafe_length [simp]: "length (setPixelSafe img x y col h) = length h"
  by (simp add: setPixelSafe_eq)

lemma setPixelSafe_other: "a \<noteq> img \<Longrightarrow> setPixelSafe img x y col h ! a = h ! a"
  by (simp add: setPixelSafe_eq)

lemma setPixelSafe_Bounds [simp]:
  "img < length h \<Longrightarrow> Bounds (setPixelSafe img x y col h ! img) = Bounds (h ! img)"
  by (simp add: setPixelSafe_eq)

lemma setPixelSafe_At:
  "img < length h \<Longrightarrow>
   At (setPixelSafe img x y col h ! img) p =
     (if p = (x, y) \<and> inRect x y (Bounds (h ! img)) then col else At (h ! img) p)"
  by (simp add: setPixelSafe_eq)

lemma paint_Nil [simp]: "paint img col [] h = h"
  by (simp add: paint_def)

lemma paint_Cons:
  "paint img col ((x, y) # pts) h = paint img col pts (setPixelSafe img x y col h)"
  by (simp add: paint_def)

lemma paint_append: "paint img col (ps @ qs) h = paint img col qs (paint img col ps h)"
  by (simp add: paint_def)

lemma paint_length [simp]: "length (paint img col pts h) = length h"
  by (induction pts arbitrary: h) (auto simp: paint_Cons)

lemma paint_other: "a \<noteq> img \<Longrightarrow> paint img col pts h ! a = h ! a"
  by (induction pts arbitrary: h) (auto simp: paint_Cons setPixelSafe_other)

lemma paint_Bounds [simp]:
  "img < length h \<Longrightarrow> Bounds (paint img col pts h ! img) = Bounds (h ! img)"
  by (induction pts arbitrary: h) (auto simp: paint_Cons)

lemma paint_At:
  "img < length h \<Longrightarrow>
   At (paint img col pts h ! img) (x, y) =
     (if (x, y) \<in> set pts \<and> inRect x y (Bounds (h ! img)) then col else At (h ! img) (x, y))"
proof (induction pts arbitrary: h)
  case Nil
  then show ?case by simp
next
  case (Cons p pts)
  obtain px py where p: "p = (px, py)" by (cases p)
  have "img < length (setPixelSafe img px py col h)" using Cons.prems by simp
  from Cons.IH [OF this] show ?case
    using Cons.prems by (auto simp: p paint_Cons setPixelSafe_At)
qed

lemma plot8_paint:
  "plot8 img centerX centerY col x y h = paint img col (plot8_points centerX centerY x y) h"
  by (simp add: plot8_def plot8_points_def Let_def paint_Cons)

lemma circleLoop_paint:
  "circleLoop img centerX centerY col x y d h =
     paint img col (circle_points centerX centerY x y d) h"
proof (induction img centerX centerY col x y d h rule: circleLoop.induct)
  case (1 img centerX centerY col x y d h)
  show ?case
    using "1.IH"
    by (subst circleLoop.simps, subst circle_points.simps)
       (simp add: paint_append plot8_paint)
qed

lemma strokeLoop_paint:
  "strokeLoop img centerX centerY radius col lineWidth w h =
     paint img col (stroke_points centerX centerY radius lineWidth w) h"
proof (induction img centerX centerY radius col lineWidth w h rule: strokeLoop.induct)
  case (1 img centerX centerY radius col lineWidth w h)
  show ?case
    using "1.IH"
    by (subst strokeLoop.simps, subst stroke_points.simps)
       (simp add: paint_append circleLoop_paint Let_def)
qed

lemma drawCircle_paint:
  "drawCircle img centerX centerY radius col lineWidth h =
     paint img col (stroke_points centerX centerY radius lineWidth 0) h"
  by (simp add: drawCircle_def strokeLoop_paint)

lemma drawFaces_paint:
  "drawFaces rgba faces opts h =
     paint rgba (Color opts) (faces_points faces (LineWidth opts)) h"
  by (induction faces arbitrary: h) (simp_all add: Let_def drawCircle_paint paint_append)


lemma stroke_points_set:
  "set (stroke_points centerX centerY radius lineWidth w) =
     (\<Union>v \<in> {w..<lineWidth}.
        if radius + v - go_quo lineWidth 2 \<le> 0 then {}
        else set (circle_points centerX centerY 0 (radius + v - go_quo lineWidth 2)
                    (3 - 2 * (radius + v - go_quo lineWidth 2))))"
proof (induction centerX centerY radius lineWidth w rule: stroke_points.induct)
  case (1 centerX centerY radius lineWidth w)
  show ?case
  proof (cases "w < lineWidth")
    case True
    then have range: "{w..<lineWidth} = insert w {w + 1..<lineWidth}" by auto
    show ?thesis
      using True "1.IH" [OF True refl]
      by (subst stroke_points.simps) (simp add: range Let_def)
  next
    case False
    then show ?thesis
      by (subst stroke_points.simps) simp
  qed
qed

lemma stroke_points_empty:
  "radius + (lineWidth - 1) - go_quo lineWidth 2 \<le> 0
     \<Longrightarrow> stroke_points centerX centerY radius lineWidth w = []"
proof -
  assume "radius + (lineWidth - 1) - go_quo lineWidth 2 \<le> 0"
  then have "set (stroke_points centerX centerY radius lineWidth w) = {}"
    unfolding stroke_points_set by auto
  then show ?thesis by simp
qed

lemma stroke_points_no_offsets:
  "lineWidth \<le> w \<Longrightarrow> stroke_points centerX centerY radius lineWidth w = []"
  by (subst stroke_points.simps) simp

lemma thin_stroke:
  assumes "radius \<le> 0" and "lineWidth \<le> 2"
  shows "stroke_points centerX centerY radius lineWidth 0 = []"
proof -
  consider "lineWidth \<le> 0" | "lineWidth = 1" | "lineWidth = 2"
    using assms(2) by linarith
  then show ?thesis
  proof cases
    case 1
    then show ?thesis by (rule stroke_points_no_offsets)
  next
    case 2
    then show ?thesis using assms(1) by (intro stroke_points_empty) (simp add: go_quo_def)
  next
    case 3
    then show ?thesis using assms(1) by (intro stroke_points_empty) (simp add: go_quo_def)
  qed
qed

lemma cp1: "circle_points 4 4 0 1 1 = plot8_points 4 4 0 1"
  by (simp add: circle_points.simps)

lemma sp3: "stroke_points 4 4 0 3 0 = plot8_points 4 4 0 1"
  by (simp add: stroke_points.simps go_quo_def cp1)

lemma copy_heap:
  assumes "img < length h"
  shows "draw_Src (length h) (Bounds (h ! img)) img
           (snd (NewRGBA (Bounds (h ! img)) h)) =
         h @ [\<lparr> Bounds = Bounds (h ! img),
                At = (\<lambda>(x, y). if inRect x y (Bounds (h ! img)) then At (h ! img) (x, y)
                                else RGBA 0 0 0 0) \<rparr>]"
  using assms by (auto simp: draw_Src_def NewRGBA_def nth_append fun_eq_iff)

lemma DrawFaceCircles_heap:
  assumes "img < length h"
  shows "fst (DrawFaceCircles codec img faces opts h) =
     paint (length h) (Color opts) (faces_points faces (LineWidth opts))
       (h @ [\<lparr> Bounds = Bounds (h ! img),
                At = (\<lambda>(x, y). if inRect x y (Bounds (h ! img)) then At (h ! img) (x, y)
                                else RGBA 0 0 0 0) \<rparr>])"
proof -
  have "fst (DrawFaceCircles codec img faces opts h) =
      drawFaces (length h) faces opts
        (draw_Src (length h) (Bounds (h ! img)) img (snd (NewRGBA (Bounds (h ! img)) h)))"
    by (simp add: DrawFaceCircles_def NewRGBA_def Let_def split: sum.splits)
  then show ?thesis
    by (simp add: copy_heap [OF assms] drawFaces_paint)
qed

lemma DrawFaceCircles_result:
  "snd (DrawFaceCircles codec img faces opts h) =
     encodeToBase64 codec (fst (DrawFaceCircles codec img faces opts h) ! length h)"
  by (simp add: DrawFaceCircles_def NewRGBA_def Let_def split: sum.splits)


subsection \<open>Faces of radius zero or less\<close>

text \<open>
  Claim C6, as the code has it. \<open>drawCircle\<close> calls \<open>setPixelSafe\<close> exactly at the
  points of the outlines of the stroke offsets \<open>w\<close> in \<open>[0, lineWidth)\<close> whose radius
  \<open>radius + w - lineWidth/2\<close> is positive: every offset whose radius is zero or less is
  skipped. When the radius of the last offset, \<open>radius + (lineWidth - 1) - lineWidth/2\<close>,
  is zero or less, no point is visited and the heap is left as it is. In particular a face
  whose radius \<open>max(width, height)/2\<close> is zero or less causes no pixel write when the line
  width is at most 2. Nothing in the drawing can fail: it has no error result.
\<close>

theorem drawCircle_nonpositive_radius:
  "set (stroke_points centerX centerY radius lineWidth 0) =
     (\<Union>w \<in> {0..<lineWidth}.
        if radius + w - go_quo lineWidth 2 \<le> 0 then {}
        else set (circle_points centerX centerY 0 (radius + w - go_quo lineWidth 2)
                    (3 - 2 * (radius + w - go_quo lineWidth 2))))
   \<and> drawCircle img centerX centerY radius col lineWidth h =
       paint img col (stroke_points centerX centerY radius lineWidth 0) h
   \<and> (radius + (lineWidth - 1) - go_quo lineWidth 2 \<le> 0 \<longrightarrow>
         stroke_points centerX centerY radius lineWidth 0 = []
       \<and> drawCircle img centerX centerY radius col lineWidth h = h)
   \<and> (go_quo (max (Width face) (Height face)) 2 \<le> 0 \<and> LineWidth opts \<le> 2 \<longrightarrow>
         faces_points [face] (LineWidth opts) = []
       \<and> drawFaces img [face] opts h = h)"
proof (intro conjI impI)
  show "set (stroke_points centerX centerY radius lineWidth 0) =
     (\<Union>w \<in> {0..<lineWidth}.
        if radius + w - go_quo lineWidth 2 \<le> 0 then {}
        else set (circle_points centerX centerY 0 (radius + w - go_quo lineWidth 2)
                    (3 - 2 * (radius + w - go_quo lineWidth 2))))"
    by (rule stroke_points_set)
  show "drawCircle img centerX centerY radius col lineWidth h =
       paint img col (stroke_points centerX centerY radius lineWidth 0) h"
    by (rule drawCircle_paint)
next
  assume a: "radius + (lineWidth - 1) - go_quo lineWidth 2 \<le> 0"
  then show "stroke_points centerX centerY radius lineWidth 0 = []"
    by (rule stroke_points_empty)
  then show "drawCircle img centerX centerY radius col lineWidth h = h"
    by (simp add: drawCircle_paint)
next
  assume a: "go_quo (max (Width face) (Height face)) 2 \<le> 0 \<and> LineWidth opts \<le> 2"
  then show e: "faces_points [face] (LineWidth opts) = []"
    by (simp add: thin_stroke)
  show "drawFaces img [face] opts h = h"
    unfolding drawFaces_paint e by simp
qed


theorem drawCircle_nonpositive_radius_witness:
  "drawCircle 0 4 4 (- 1) (RGBA 255 0 0 255) 3 [smallImage] = [smallImage]
   \<and> drawFaces 0 [\<lparr>X = 4, Y = 4, Width = 1, Height = 1, Confidence = 20\<rparr>]
         \<lparr>Color = RGBA 255 0 0 255, LineWidth = 2\<rparr> [smallImage] = [smallImage]"
  using drawCircle_nonpositive_radius
      [of 4 4 "- 1" 3 0 "RGBA 255 0 0 255" "[smallImage]"]
    drawCircle_nonpositive_radius
      [where face = "\<lparr>X = 4, Y = 4, Width = 1, Height = 1, Confidence = 20\<rparr>"
         and opts = "\<lparr>Color = RGBA 255 0 0 255, LineWidth = 2\<rparr>"
         and img = 0 and h = "[smallImage]"]
  by (simp add: go_quo_def)

text \<open>
  A face of width and height 0 has radius 0. With the line width 3 its third stroke
  offset has radius 1, and the pixel below the centre is written.
\<close>

theorem drawCircle_radius_zero_counterexample:
  "go_quo (max (Width \<lparr>X = 4, Y = 4, Width = 0, Height = 0, Confidence = 20\<rparr>)
               (Height \<lparr>X = 4, Y = 4, Width = 0, Height = 0, Confidence = 20\<rparr>)) 2 \<le> 0
   \<and> At (drawFaces 0 [\<lparr>X = 4, Y = 4, Width = 0, Height = 0, Confidence = 20\<rparr>]
            \<lparr>Color = RGBA 255 0 0 255, LineWidth = 3\<rparr> [smallImage] ! 0) (4, 5)
       = RGBA 255 0 0 255
   \<and> At smallImage (4, 5) = RGBA 10 20 30 255"
  by (simp add: drawFaces_paint paint_At go_quo_def sp3 plot8_points_def smallImage_def inRect_def)



subsection \<open>The source image and the pixels off the outlines\<close>

text \<open>
  Claim C7. \<open>DrawFaceCircles\<close> on the image at the address \<open>img\<close> of the heap
  allocates one new image and leaves every image that was in the heap as it was, the source
  among them. The new image has the bounds of the source. All the drawing is done by calls
  of \<open>setPixelSafe\<close> on the new image, and a call with a point outside the bounds changes
  nothing. So in the new image a pixel inside the bounds has the stroke colour when it is
  a visited point of an outline and the colour of the source otherwise, and outside the
  bounds nothing is written.
\<close>

theorem DrawFaceCircles_frame:
  assumes "img < length h"
  shows "let (h', res) = DrawFaceCircles codec img faces opts h;
             rgba = length h;
             bounds = Bounds (h ! img)
         in length h' = length h + 1
          \<and> (\<forall>a < length h. h' ! a = h ! a)
          \<and> Bounds (h' ! rgba) = bounds
          \<and> (\<forall>x y. At (h' ! rgba) (x, y) =
                 (if inRect x y bounds
                  then (if (x, y) \<in> set (faces_points faces (LineWidth opts))
                        then Color opts else At (h ! img) (x, y))
                  else RGBA 0 0 0 0))
          \<and> (\<forall>g. drawFaces rgba faces opts g =
                 paint rgba (Color opts) (faces_points faces (LineWidth opts)) g)
          \<and> (\<forall>g x y col. \<not> inRect x y (Bounds (g ! rgba))
                 \<longrightarrow> setPixelSafe rgba x y col g = g)"
proof -
  let ?copy = "\<lparr> Bounds = Bounds (h ! img),
                At = (\<lambda>(x, y). if inRect x y (Bounds (h ! img)) then At (h ! img) (x, y)
                                else RGBA 0 0 0 0) \<rparr>"
  let ?pts = "faces_points faces (LineWidth opts)"
  let ?h' = "paint (length h) (Color opts) ?pts (h @ [?copy])"
  have heap: "fst (DrawFaceCircles codec img faces opts h) = ?h'"
    by (rule DrawFaceCircles_heap [OF assms])
  have valid: "length h < length (h @ [?copy])" by simp
  have len: "length ?h' = length h + 1" by simp
  have others: "\<forall>a < length h. ?h' ! a = h ! a"
    by (simp add: paint_other nth_append)
  have bounds: "Bounds (?h' ! length h) = Bounds (h ! img)"
    by (simp add: paint_Bounds [OF valid])
  have pixels: "\<forall>x y. At (?h' ! length h) (x, y) =
                 (if inRect x y (Bounds (h ! img))
                  then (if (x, y) \<in> set ?pts then Color opts else At (h ! img) (x, y))
                  else RGBA 0 0 0 0)"
    by (simp add: paint_At [OF valid])
  show ?thesis
    using heap len others bounds pixels drawFaces_paint setPixelSafe_outside
    by (simp add: Let_def split_beta)
qed


theorem DrawFaceCircles_frame_witness:
  "let (h', res) = DrawFaceCircles exampleCodec 0
                     [\<lparr>X = 5, Y = 5, Width = 4, Height = 4, Confidence = 20\<rparr>]
                     \<lparr>Color = RGBA 255 0 0 255, LineWidth = 1\<rparr> [smallImage]
   in length h' = 2 \<and> h' ! 0 = smallImage
    \<and> At (h' ! 1) (7, 5) = RGBA 255 0 0 255
    \<and> At (h' ! 1) (4, 4) = RGBA 10 20 30 255
    \<and> At (h' ! 1) (7, 9) = RGBA 0 0 0 0"
  using DrawFaceCircles_frame
      [of 0 "[smallImage]" exampleCodec
        "[\<lparr>X = 5, Y = 5, Width = 4, Height = 4, Confidence = 20\<rparr>]"
        "\<lparr>Color = RGBA 255 0 0 255, LineWidth = 1\<rparr>"]
  by (simp add: Let_def split_beta go_quo_def stroke_points.simps circle_points.simps
      plot8_points_def smallImage_def inRect_def)

section \<open>Properties of the handlers\<close>

lemma withImage_error:
  "withImage (Inl e) k =
     \<lparr> RespStatus = 400,
       RespBody = ErrorBody ''Failed to download image'' ''IMAGE_DOWNLOAD_FAILED'' \<rparr>"
  by (simp add: withImage_def writeErrorResponse_def)

lemma withFaces_error:
  "withFaces (Inl e) k =
     \<lparr> RespStatus = 500,
       RespBody = ErrorBody ''Face detection failed'' ''FACE_DETECTION_FAILED'' \<rparr>"
  by (simp add: withFaces_def writeErrorResponse_def)

lemma DetectFaces_total: "\<exists>faces. DetectFaces classifier config img = Inr faces"
  by (simp add: DetectFaces_eq)

lemma withFaces_DetectFaces:
  "withFaces (DetectFaces classifier config img) k =
     k (projr (DetectFaces classifier config img))"
  by (simp add: withFaces_def DetectFaces_eq)

lemma DetectHandler_complete:
  "case RespBody (DetectHandler svc decoded) of
     ErrorBody m c \<Rightarrow> RespStatus (DetectHandler svc decoded) = 400
                       \<and> c \<noteq> ''FACE_DETECTION_FAILED''
   | DetectionBody faces n meta \<Rightarrow> RespStatus (DetectHandler svc decoded) = 200
   | _ \<Rightarrow> False"
  by (simp add: DetectHandler_def withImage_def withFaces_DetectFaces writeErrorResponse_def
           split: option.splits sum.splits prod.splits)

lemma ValidateHandler_complete:
  "case RespBody (ValidateHandler svc decoded) of
     ErrorBody m c \<Rightarrow> RespStatus (ValidateHandler svc decoded) = 400
                       \<and> c \<noteq> ''FACE_DETECTION_FAILED''
   | ValidationBody v \<Rightarrow> RespStatus (ValidateHandler svc decoded) = 200
   | _ \<Rightarrow> False"
  by (simp add: ValidateHandler_def withImage_def withFaces_DetectFaces writeErrorResponse_def
           Let_def split: option.splits sum.splits prod.splits)

lemma DetectVisualHandler_complete:
  "case RespBody (DetectVisualHandler svc decoded) of
     ErrorBody m c \<Rightarrow> (RespStatus (DetectVisualHandler svc decoded) = 400
                          \<or> RespStatus (DetectVisualHandler svc decoded) = 500)
                       \<and> c \<noteq> ''FACE_DETECTION_FAILED''
   | VisualBody b faces n meta \<Rightarrow> RespStatus (DetectVisualHandler svc decoded) = 200
   | _ \<Rightarrow> False"
  by (simp add: DetectVisualHandler_def withImage_def withFaces_DetectFaces
           writeErrorResponse_def Let_def split: option.splits sum.splits prod.splits)

lemma download_error_responses:
  assumes "url \<noteq> []" and "DownloadImage (svcNet svc) (svcLimits svc) url = Inl e"
  shows "DetectHandler svc (Some \<lparr>det_ImageURL = url\<rparr>) =
           \<lparr> RespStatus = 400,
             RespBody = ErrorBody ''Failed to download image'' ''IMAGE_DOWNLOAD_FAILED'' \<rparr>"
    and "ValidateHandler svc
           (Some \<lparr>val_ImageURL = url, val_MinFaces = mn, val_MaxFaces = mx\<rparr>) =
           \<lparr> RespStatus = 400,
             RespBody = ErrorBody ''Failed to download image'' ''IMAGE_DOWNLOAD_FAILED'' \<rparr>"
    and "DetectVisualHandler svc
           (Some \<lparr>vis_ImageURL = url, vis_CircleColor = cc, vis_LineWidth = lw\<rparr>) =
           \<lparr> RespStatus = 400,
             RespBody = ErrorBody ''Failed to download image'' ''IMAGE_DOWNLOAD_FAILED'' \<rparr>"
  using assms
  by (simp_all add: DetectHandler_def ValidateHandler_def DetectVisualHandler_def
        withImage_error Let_def)

lemma detection_responses:
  assumes "url \<noteq> []" and "DownloadImage (svcNet svc) (svcLimits svc) url = Inr (img, meta)"
    and "DetectFaces (svcClassifier svc) (svcPigoConfig svc) img = Inr faces"
  shows "DetectHandler svc (Some \<lparr>det_ImageURL = url\<rparr>) =
           \<lparr> RespStatus = 200,
             RespBody = DetectionBody faces (int (length faces)) meta \<rparr>"
    and "ValidateHandler svc
           (Some \<lparr>val_ImageURL = url, val_MinFaces = mn, val_MaxFaces = mx\<rparr>) =
           \<lparr> RespStatus = 200,
             RespBody = ValidationBody
               (ValidateSelfie (svcRound svc) faces (if mn = 0 then 1 else mn)
                  (if mx = 0 then 1 else mx)) \<rparr>"
  using assms
  by (simp_all add: DetectHandler_def ValidateHandler_def withImage_def withFaces_def Let_def)

lemma render_responses:
  assumes "url \<noteq> []" and "DownloadImage (svcNet svc) (svcLimits svc) url = Inr (img, meta)"
    and "DetectFaces (svcClassifier svc) (svcPigoConfig svc) img = Inr faces"
  shows "snd (DrawFaceCircles (svcCodec svc) 0 faces
                \<lparr> Color = ParseColor (if cc = [] then ''red'' else cc),
                  LineWidth = (if lw = 0 then 3 else lw) \<rparr> [img]) = Inl err
         \<Longrightarrow> DetectVisualHandler svc
           (Some \<lparr>vis_ImageURL = url, vis_CircleColor = cc, vis_LineWidth = lw\<rparr>) =
           \<lparr> RespStatus = 500,
             RespBody = ErrorBody ''Failed to process image'' ''IMAGE_PROCESSING_FAILED'' \<rparr>"
    and "snd (DrawFaceCircles (svcCodec svc) 0 faces
                \<lparr> Color = ParseColor (if cc = [] then ''red'' else cc),
                  LineWidth = (if lw = 0 then 3 else lw) \<rparr> [img]) = Inr encoded
         \<Longrightarrow> DetectVisualHandler svc
           (Some \<lparr>vis_ImageURL = url, vis_CircleColor = cc, vis_LineWidth = lw\<rparr>) =
           \<lparr> RespStatus = 200,
             RespBody = VisualBody encoded faces (int (length faces)) meta \<rparr>"
  using assms
  by (cases "cc = []"; cases "lw = 0";
      simp add: DetectVisualHandler_def withImage_def withFaces_def Let_def
        writeErrorResponse_def)+

text \<open>
  Claim C8, as the code has it. A failure of a stage ends the request with an error
  response, and a response either has the status 200 and the complete result or has an
  error status and the error object alone. The errors are mapped by the stage that failed,
  not by their kind:
  \<^item> every error of \<open>DownloadImage\<close>, whatever it is, gives the status 400 with the one
    code \<open>IMAGE_DOWNLOAD_FAILED\<close> and the one message \<open>Failed to download image\<close>, in
    each of the three handlers;
  \<^item> an error of \<open>DrawFaceCircles\<close> gives the status 500 with the code
    \<open>IMAGE_PROCESSING_FAILED\<close>, and its success the status 200 with the encoded image;
  \<^item> the branch of the handlers for an error of the detection answers with the status 500
    and the code \<open>FACE_DETECTION_FAILED\<close>, but \<open>DetectFaces\<close> returns no error, so no
    request gets that response: after a successful download the detection handlers answer
    with the status 200 and the faces found.
\<close>

theorem handlers_error_mapping:
  "(url \<noteq> [] \<and> DownloadImage (svcNet svc) (svcLimits svc) url = Inl e \<longrightarrow>
         DetectHandler svc (Some \<lparr>det_ImageURL = url\<rparr>) =
           \<lparr> RespStatus = 400,
             RespBody = ErrorBody ''Failed to download image'' ''IMAGE_DOWNLOAD_FAILED'' \<rparr>
       \<and> ValidateHandler svc
           (Some \<lparr>val_ImageURL = url, val_MinFaces = mn, val_MaxFaces = mx\<rparr>) =
           \<lparr> RespStatus = 400,
             RespBody = ErrorBody ''Failed to download image'' ''IMAGE_DOWNLOAD_FAILED'' \<rparr>
       \<and> DetectVisualHandler svc
           (Some \<lparr>vis_ImageURL = url, vis_CircleColor = cc, vis_LineWidth = lw\<rparr>) =
           \<lparr> RespStatus = 400,
             RespBody = ErrorBody ''Failed to download image'' ''IMAGE_DOWNLOAD_FAILED'' \<rparr>)
   \<and> (url \<noteq> [] \<and> DownloadImage (svcNet svc) (svcLimits svc) url = Inr (img, meta)
        \<and> DetectFaces (svcClassifier svc) (svcPigoConfig svc) img = Inr faces
        \<and> snd (DrawFaceCircles (svcCodec svc) 0 faces
                \<lparr> Color = ParseColor (if cc = [] then ''red'' else cc),
                  LineWidth = (if lw = 0 then 3 else lw) \<rparr> [img]) = Inl err \<longrightarrow>
         DetectVisualHandler svc
           (Some \<lparr>vis_ImageURL = url, vis_CircleColor = cc, vis_LineWidth = lw\<rparr>) =
           \<lparr> RespStatus = 500,
             RespBody = ErrorBody ''Failed to process image'' ''IMAGE_PROCESSING_FAILED'' \<rparr>)
   \<and> (url \<noteq> [] \<and> DownloadImage (svcNet svc) (svcLimits svc) url = Inr (img, meta)
        \<and> DetectFaces (svcClassifier svc) (svcPigoConfig svc) img = Inr faces
        \<and> snd (DrawFaceCircles (svcCodec svc) 0 faces
                \<lparr> Color = ParseColor (if cc = [] then ''red'' else cc),
                  LineWidth = (if lw = 0 then 3 else lw) \<rparr> [img]) = Inr encoded \<longrightarrow>
         DetectVisualHandler svc
           (Some \<lparr>vis_ImageURL = url, vis_CircleColor = cc, vis_LineWidth = lw\<rparr>) =
           \<lparr> RespStatus = 200,
             RespBody = VisualBody encoded faces (int (length faces)) meta \<rparr>)
   \<and> (url \<noteq> [] \<and> DownloadImage (svcNet svc) (svcLimits svc) url = Inr (img, meta)
        \<and> DetectFaces (svcClassifier svc) (svcPigoConfig svc) img = Inr faces \<longrightarrow>
         DetectHandler svc (Some \<lparr>det_ImageURL = url\<rparr>) =
           \<lparr> RespStatus = 200,
             RespBody = DetectionBody faces (int (length faces)) meta \<rparr>
       \<and> ValidateHandler svc
           (Some \<lparr>val_ImageURL = url, val_MinFaces = mn, val_MaxFaces = mx\<rparr>) =
           \<lparr> RespStatus = 200,
             RespBody = ValidationBody
               (ValidateSelfie (svcRound svc) faces (if mn = 0 then 1 else mn)
                  (if mx = 0 then 1 else mx)) \<rparr>)
   \<and> (\<forall>anyImage. \<exists>found.
         DetectFaces (svcClassifier svc) (svcPigoConfig svc) anyImage = Inr found)
   \<and> (\<forall>err k. withFaces (Inl err) k =
        \<lparr> RespStatus = 500,
          RespBody = ErrorBody ''Face detection failed'' ''FACE_DETECTION_FAILED'' \<rparr>)
   \<and> (\<forall>decoded.
         case RespBody (DetectHandler svc decoded) of
           ErrorBody m c \<Rightarrow> RespStatus (DetectHandler svc decoded) = 400
                             \<and> c \<noteq> ''FACE_DETECTION_FAILED''
         | DetectionBody fs n md \<Rightarrow> RespStatus (DetectHandler svc decoded) = 200
         | _ \<Rightarrow> False)
   \<and> (\<forall>decoded.
         case RespBody (ValidateHandler svc decoded) of
           ErrorBody m c \<Rightarrow> RespStatus (ValidateHandler svc decoded) = 400
                             \<and> c \<noteq> ''FACE_DETECTION_FAILED''
         | ValidationBody v \<Rightarrow> RespStatus (ValidateHandler svc decoded) = 200
         | _ \<Rightarrow> False)
   \<and> (\<forall>decoded.
         case RespBody (DetectVisualHandler svc decoded) of
           ErrorBody m c \<Rightarrow> (RespStatus (DetectVisualHandler svc decoded) = 400
                                \<or> RespStatus (DetectVisualHandler svc decoded) = 500)
                             \<and> c \<noteq> ''FACE_DETECTION_FAILED''
         | VisualBody b fs n md \<Rightarrow> RespStatus (DetectVisualHandler svc decoded) = 200
         | _ \<Rightarrow> False)"
proof -
  have download: "url \<noteq> [] \<and> DownloadImage (svcNet svc) (svcLimits svc) url = Inl e \<longrightarrow>
         DetectHandler svc (Some \<lparr>det_ImageURL = url\<rparr>) =
           \<lparr> RespStatus = 400,
             RespBody = ErrorBody ''Failed to download image'' ''IMAGE_DOWNLOAD_FAILED'' \<rparr>
       \<and> ValidateHandler svc
           (Some \<lparr>val_ImageURL = url, val_MinFaces = mn, val_MaxFaces = mx\<rparr>) =
           \<lparr> RespStatus = 400,
             RespBody = ErrorBody ''Failed to download image'' ''IMAGE_DOWNLOAD_FAILED'' \<rparr>
       \<and> DetectVisualHandler svc
           (Some \<lparr>vis_ImageURL = url, vis_CircleColor = cc, vis_LineWidth = lw\<rparr>) =
           \<lparr> RespStatus = 400,
             RespBody = ErrorBody ''Failed to download image'' ''IMAGE_DOWNLOAD_FAILED'' \<rparr>"
    using download_error_responses [of url svc e] by blast
  have render_fails: "url \<noteq> [] \<and> DownloadImage (svcNet svc) (svcLimits svc) url = Inr (img, meta)
        \<and> DetectFaces (svcClassifier svc) (svcPigoConfig svc) img = Inr faces
        \<and> snd (DrawFaceCircles (svcCodec svc) 0 faces
                \<lparr> Color = ParseColor (if cc = [] then ''red'' else cc),
                  LineWidth = (if lw = 0 then 3 else lw) \<rparr> [img]) = Inl err \<longrightarrow>
         DetectVisualHandler svc
           (Some \<lparr>vis_ImageURL = url, vis_CircleColor = cc, vis_LineWidth = lw\<rparr>) =
           \<lparr> RespStatus = 500,
             RespBody = ErrorBody ''Failed to process image'' ''IMAGE_PROCESSING_FAILED'' \<rparr>"
    using render_responses(1) [of url svc img meta faces cc lw err] by blast
  have render_ok: "url \<noteq> [] \<and> DownloadImage (svcNet svc) (svcLimits svc) url = Inr (img, meta)
        \<and> DetectFaces (svcClassifier svc) (svcPigoConfig svc) img = Inr faces
        \<and> snd (DrawFaceCircles (svcCodec svc) 0 faces
                \<lparr> Color = ParseColor (if cc = [] then ''red'' else cc),
                  LineWidth = (if lw = 0 then 3 else lw) \<rparr> [img]) = Inr encoded \<longrightarrow>
         DetectVisualHandler svc
           (Some \<lparr>vis_ImageURL = url, vis_CircleColor = cc, vis_LineWidth = lw\<rparr>) =
           \<lparr> RespStatus = 200,
             RespBody = VisualBody encoded faces (int (length faces)) meta \<rparr>"
    using render_responses(2) [of url svc img meta faces cc lw encoded] by blast
  have detect_ok: "url \<noteq> [] \<and> DownloadImage (svcNet svc) (svcLimits svc) url = Inr (img, meta)
        \<and> DetectFaces (svcClassifier svc) (svcPigoConfig svc) img = Inr faces \<longrightarrow>
         DetectHandler svc (Some \<lparr>det_ImageURL = url\<rparr>) =
           \<lparr> RespStatus = 200,
             RespBody = DetectionBody faces (int (length faces)) meta \<rparr>
       \<and> ValidateHandler svc
           (Some \<lparr>val_ImageURL = url, val_MinFaces = mn, val_MaxFaces = mx\<rparr>) =
           \<lparr> RespStatus = 200,
             RespBody = ValidationBody
               (ValidateSelfie (svcRound svc) faces (if mn = 0 then 1 else mn)
                  (if mx = 0 then 1 else mx)) \<rparr>"
    using detection_responses [of url svc img meta faces] by blast
  show ?thesis
    by (intro conjI allI download render_fails render_ok detect_ok DetectFaces_total
        withFaces_error DetectHandler_complete ValidateHandler_complete
        DetectVisualHandler_complete)
qed

lemma example_detection:
  "DetectFaces noFaceClassifier examplePigoConfig img = Inr []"
  by (simp add: DetectFaces_eq noFaceClassifier_def)

lemma example_render_failure:
  "snd (DrawFaceCircles exampleCodec 0 []
          \<lparr> Color = ParseColor ''blue'', LineWidth = 3 \<rparr> [wideImage]) = Inl EncodeError"
  by (simp add: DrawFaceCircles_def NewRGBA_def draw_Src_def encodeToBase64_def
      exampleCodec_def wideImage_def Dx_def Let_def)

lemma example_render_success:
  "snd (DrawFaceCircles exampleCodec 0 []
          \<lparr> Color = ParseColor ''red'', LineWidth = 3 \<rparr> [onePixelImage])
     = Inr ''data:image/jpeg;base64,anBlZy1ieXRlcw==''"
  by (simp add: DrawFaceCircles_def NewRGBA_def draw_Src_def encodeToBase64_def
      exampleCodec_def onePixelImage_def Dx_def Dy_def Let_def)

theorem handlers_error_mapping_witness:
  "DetectHandler exampleServices (Some \<lparr>det_ImageURL = ''ftp://example.com/face.jpg''\<rparr>) =
     \<lparr> RespStatus = 400,
       RespBody = ErrorBody ''Failed to download image'' ''IMAGE_DOWNLOAD_FAILED'' \<rparr>
   \<and> DetectVisualHandler wideServices
       (Some \<lparr>vis_ImageURL = ''https://example.com/wide.png'', vis_CircleColor = ''blue'',
              vis_LineWidth = 0\<rparr>) =
     \<lparr> RespStatus = 500,
       RespBody = ErrorBody ''Failed to process image'' ''IMAGE_PROCESSING_FAILED'' \<rparr>
   \<and> DetectHandler exampleServices (Some \<lparr>det_ImageURL = ''https://example.com/face.png''\<rparr>) =
     \<lparr> RespStatus = 200,
       RespBody = DetectionBody [] 0
         \<lparr>MetaWidth = 1, MetaHeight = 1, Format = ''PNG'', SizeBytes = 67,
          MetaURL = ''https://example.com/face.png''\<rparr> \<rparr>
   \<and> DetectVisualHandler exampleServices
       (Some \<lparr>vis_ImageURL = ''https://example.com/face.png'', vis_CircleColor = [],
              vis_LineWidth = 0\<rparr>) =
     \<lparr> RespStatus = 200,
       RespBody = VisualBody ''data:image/jpeg;base64,anBlZy1ieXRlcw=='' [] 0
         \<lparr>MetaWidth = 1, MetaHeight = 1, Format = ''PNG'', SizeBytes = 67,
          MetaURL = ''https://example.com/face.png''\<rparr> \<rparr>"
proof -
  have "DetectHandler exampleServices (Some \<lparr>det_ImageURL = ''ftp://example.com/face.jpg''\<rparr>) =
     \<lparr> RespStatus = 400,
       RespBody = ErrorBody ''Failed to download image'' ''IMAGE_DOWNLOAD_FAILED'' \<rparr>"
    using handlers_error_mapping
      [where svc = exampleServices and url = "''ftp://example.com/face.jpg''"
         and e = "InvalidURL (UnsupportedScheme ''ftp'')",
       THEN conjunct1, THEN mp, THEN conjunct1]
      example_download_errors(1)
    by (simp add: exampleServices_def)
  moreover have "DetectVisualHandler wideServices
       (Some \<lparr>vis_ImageURL = ''https://example.com/wide.png'', vis_CircleColor = ''blue'',
              vis_LineWidth = 0\<rparr>) =
     \<lparr> RespStatus = 500,
       RespBody = ErrorBody ''Failed to process image'' ''IMAGE_PROCESSING_FAILED'' \<rparr>"
    using handlers_error_mapping
      [where svc = wideServices and url = "''https://example.com/wide.png''"
         and img = wideImage
         and meta = "\<lparr>MetaWidth = 65536, MetaHeight = 1, Format = ''PNG'', SizeBytes = 142,
             MetaURL = ''https://example.com/wide.png''\<rparr>"
         and faces = "[]" and cc = "''blue''" and lw = 0 and err = EncodeError,
       THEN conjunct2, THEN conjunct1]
      example_downloads(3) example_detection example_render_failure
    by (simp add: wideServices_def exampleServices_def)
  moreover have "DetectHandler exampleServices
       (Some \<lparr>det_ImageURL = ''https://example.com/face.png''\<rparr>) =
     \<lparr> RespStatus = 200,
       RespBody = DetectionBody [] 0
         \<lparr>MetaWidth = 1, MetaHeight = 1, Format = ''PNG'', SizeBytes = 67,
          MetaURL = ''https://example.com/face.png''\<rparr> \<rparr>"
    using handlers_error_mapping
      [where svc = exampleServices and url = "''https://example.com/face.png''"
         and img = onePixelImage
         and meta = "\<lparr>MetaWidth = 1, MetaHeight = 1, Format = ''PNG'', SizeBytes = 67,
             MetaURL = ''https://example.com/face.png''\<rparr>"
         and faces = "[]",
       THEN conjunct2, THEN conjunct2, THEN conjunct2, THEN conjunct1, THEN mp, THEN conjunct1]
      example_downloads(1) example_detection
    by (simp add: exampleServices_def)
  moreover have "DetectVisualHandler exampleServices
       (Some \<lparr>vis_ImageURL = ''https://example.com/face.png'', vis_CircleColor = [],
              vis_LineWidth = 0\<rparr>) =
     \<lparr> RespStatus = 200,
       RespBody = VisualBody ''data:image/jpeg;base64,anBlZy1ieXRlcw=='' [] 0
         \<lparr>MetaWidth = 1, MetaHeight = 1, Format = ''PNG'', SizeBytes = 67,
          MetaURL = ''https://example.com/face.png''\<rparr> \<rparr>"
    using handlers_error_mapping
      [where svc = exampleServices and url = "''https://example.com/face.png''"
         and img = onePixelImage
         and meta = "\<lparr>MetaWidth = 1, MetaHeight = 1, Format = ''PNG'', SizeBytes = 67,
             MetaURL = ''https://example.com/face.png''\<rparr>"
         and faces = "[]" and cc = "[]" and lw = 0
         and encoded = "''data:image/jpeg;base64,anBlZy1ieXRlcw==''",
       THEN conjunct2, THEN conjunct2, THEN conjunct1]
      example_downloads(1) example_detection example_render_success
    by (simp add: exampleServices_def)
  ultimately show ?thesis by simp
qed

text \<open>
  Four requests whose downloads fail with four different errors, an unsupported scheme, a
  body that does not decode, an unsupported content type and a content length above the
  limit, get the same response.
\<close>

theorem handlers_one_download_code_counterexample:
  "DownloadImage (svcNet exampleServices) (svcLimits exampleServices)
       ''ftp://example.com/face.jpg'' = Inl (InvalidURL (UnsupportedScheme ''ftp''))
   \<and> DownloadImage (svcNet exampleServices) (svcLimits exampleServices)
       ''https://example.com/anim.gif'' = Inl DecodeFailed
   \<and> DownloadImage (svcNet exampleServices) (svcLimits exampleServices)
       ''https://example.com/page.html''
       = Inl (UnsupportedContentType ''text/html; charset=utf-8'')
   \<and> DownloadImage (svcNet exampleServices) (svcLimits exampleServices)
       ''https://example.com/huge.gif'' = Inl (ImageTooLarge 6000000 5242880)
   \<and> DetectHandler exampleServices (Some \<lparr>det_ImageURL = ''ftp://example.com/face.jpg''\<rparr>)
       = DetectHandler exampleServices (Some \<lparr>det_ImageURL = ''https://example.com/anim.gif''\<rparr>)
   \<and> DetectHandler exampleServices (Some \<lparr>det_ImageURL = ''ftp://example.com/face.jpg''\<rparr>)
       = DetectHandler exampleServices (Some \<lparr>det_ImageURL = ''https://example.com/page.html''\<rparr>)
   \<and> DetectHandler exampleServices (Some \<lparr>det_ImageURL = ''ftp://example.com/face.jpg''\<rparr>)
       = DetectHandler exampleServices (Some \<lparr>det_ImageURL = ''https://example.com/huge.gif''\<rparr>)"
  by (simp add: exampleServices_def example_download_errors example_downloads
      DetectHandler_def withImage_error)

end
